theory Spec2Isabelle
  imports Main
begin

section \<open>The food assistant of AIMain/main.py\<close>

text \<open>
  The script is a console loop around a hosted chat service. The model makes its
  effects explicit: the keyboard is a list of pending keys, the console is the list of
  everything written so far, the service is a table of outcomes, and the two loop
  variables of \<^verbatim>\<open>food_ingredients_chat\<close> are fields of the state.

  Strings are \<open>string\<close>; a \<open>char\<close> stands for one code point below 256.

  Left out: \<^verbatim>\<open>os.system("clear -x")\<close>, which only clears the terminal; the two functions
  \<^verbatim>\<open>input_image_setup\<close> and \<^verbatim>\<open>get_gemini_response\<close>, which nothing calls; and
  \<^verbatim>\<open>genai.configure\<close>, which stores the key it is given.
\<close>

subsection \<open>Python strings\<close>

definition space_char :: "char \<Rightarrow> bool" where
  \<comment> \<open>the whitespace code points below 256, as \<^verbatim>\<open>str.isspace\<close> classifies them\<close>
  "space_char c =
     (let n = (of_char c :: nat)
      in (9 \<le> n \<and> n \<le> 13) \<or> (28 \<le> n \<and> n \<le> 32) \<or> n = 133 \<or> n = 160)"

definition isspace :: "string \<Rightarrow> bool" where
  \<comment> \<open>\<^verbatim>\<open>s.isspace()\<close>: at least one character, and all of them whitespace\<close>
  "isspace t = (t \<noteq> [] \<and> list_all space_char t)"

definition lower_char :: "char \<Rightarrow> char" where
  "lower_char c =
     (let n = (of_char c :: nat)
      in if (65 \<le> n \<and> n \<le> 90) \<or> (192 \<le> n \<and> n \<le> 222 \<and> n \<noteq> 215)
         then char_of (n + 32) else c)"

definition lower :: "string \<Rightarrow> string" where
  "lower t = map lower_char t"

definition truthy :: "string option \<Rightarrow> bool" where
  \<comment> \<open>\<^verbatim>\<open>if x:\<close> for a value that is \<^verbatim>\<open>None\<close> or a \<^verbatim>\<open>str\<close>\<close>
  "truthy x = (case x of None \<Rightarrow> False | Some t \<Rightarrow> t \<noteq> [])"

definition nl :: string where
  "nl = [CHR 0x0A]"

definition quoted :: "string \<Rightarrow> string" where
  \<comment> \<open>\<^verbatim>\<open>'{t}'\<close> inside an f-string\<close>
  "quoted t = [CHR 0x27] @ t @ [CHR 0x27]"

subsection \<open>The world outside the script\<close>

datatype key = Line string | CtrlC

datatype event = Print string | Prompt string

datatype message = TextMsg string

datatype exc_kind =
    DeadlineExceeded | InvalidArgument | PermissionDenied | NotFound
  | ResourceExhausted | Unknown | ServiceUnavailable | OtherError

datatype response = Text string | NoText

datatype reply = Returns response | Raise exc_kind string

text \<open>
  \<open>Returns r\<close>: \<^verbatim>\<open>send_message\<close> returns the response \<open>r\<close>. \<open>Text t\<close> is a response
  whose \<^verbatim>\<open>text\<close> attribute is \<open>t\<close>; \<open>NoText\<close> is a response that carries no text (a
  blocked one, say), so that reading \<^verbatim>\<open>response.text\<close> raises \<^verbatim>\<open>ValueError\<close>.
  \<open>Raise k why\<close>: the call raises an exception of kind \<open>k\<close> whose \<^verbatim>\<open>message\<close>
  attribute is \<open>why\<close>. \<open>OtherError\<close> is any exception that none of the seven handlers
  names.
\<close>

datatype exn =
    KeyboardInterrupt | TypeError | ValueError | UnicodeDecodeError | RecursionError
  | PermissionError | ApiError exc_kind string

datatype pyval = Str string | Opaque

datatype config_read =
    NoFile | Unreadable | Undecodable | TooDeep | Unparseable
  | Dict "(string \<times> pyval) list" | NotADict

text \<open>
  What \<^verbatim>\<open>open\<close> and \<^verbatim>\<open>json.load\<close> make of \<^verbatim>\<open>keys.json\<close>. \<open>NoFile\<close>:
  \<^verbatim>\<open>FileNotFoundError\<close>. \<open>Unreadable\<close>: the file is there and may not be read,
  \<^verbatim>\<open>PermissionError\<close>. \<open>Undecodable\<close>: the bytes are not UTF-8, \<^verbatim>\<open>UnicodeDecodeError\<close>
  (a \<^verbatim>\<open>ValueError\<close>, not a \<^verbatim>\<open>JSONDecodeError\<close>). \<open>TooDeep\<close>: the nesting exceeds the
  recursion limit, \<^verbatim>\<open>RecursionError\<close>. \<open>Unparseable\<close>: \<^verbatim>\<open>JSONDecodeError\<close>.
  \<open>Dict items\<close>: a JSON object. \<open>NotADict\<close>: any other JSON value.
\<close>

datatype image_read = FileNotFound | OSError string | Bytes string

record env =
  args :: "string list"
  config_file :: config_read
  construct :: "pyval \<Rightarrow> pyval \<Rightarrow> pyval \<Rightarrow> exn option"
  open_image :: "string \<Rightarrow> image_read"
  chat_reply :: "nat \<Rightarrow> reply"
  keyword_error :: string

text \<open>
  \<open>args\<close> is \<^verbatim>\<open>sys.argv[1:]\<close>. \<open>construct m s g\<close> is what the constructor
  \<^verbatim>\<open>GenerativeModel(model_name=m, safety_settings=s, generation_config=g)\<close> raises,
  \<open>None\<close> when it returns the model. \<open>open_image p\<close> is what reading the file at \<open>p\<close>
  gives (\<open>OSError why\<close>: any exception other than \<^verbatim>\<open>FileNotFoundError\<close>, with its text).
  \<open>chat_reply n\<close> is the outcome of the \<open>n\<close>-th message sent on the main chat, counted
  from 0. \<open>keyword_error\<close> is the text of the \<^verbatim>\<open>TypeError\<close> of lines 91-94 (see there).
\<close>

subsection \<open>State and control\<close>

record state =
  stdin :: "key list"
  console :: "event list"
  sessions :: nat
  chat :: "message list"
  image_chats :: "message list list"
  last_food_item :: "string option"
  last_dish_description :: "string option"

text \<open>
  \<open>sessions\<close> counts the calls of \<^verbatim>\<open>start_chat\<close>; \<open>chat\<close> is the history of the
  session bound to the variable \<^verbatim>\<open>chat\<close>: the queries submitted on it, in order;
  \<open>image_chats\<close> holds the same for each session started by the image analysis.
\<close>

datatype control = Continue | Exit nat | Raised exn | Blocked

text \<open>
  \<open>Continue\<close>: the loop goes to its next iteration. \<open>Exit n\<close>: \<^verbatim>\<open>sys.exit(n)\<close>.
  \<open>Raised e\<close>: the exception \<open>e\<close> leaves the function. \<open>Blocked\<close>: the script waits
  for a key that the finite keyboard list does not hold.
\<close>

datatype 'a res = Val 'a | Stop control

type_synonym 'a cmd = "state \<Rightarrow> 'a res \<times> state"

definition ret :: "'a \<Rightarrow> 'a cmd" where
  "ret x s = (Val x, s)"

definition stop :: "control \<Rightarrow> 'a cmd" where
  "stop c s = (Stop c, s)"

definition andthen :: "'a cmd \<Rightarrow> ('a \<Rightarrow> 'b cmd) \<Rightarrow> 'b cmd" where
  "andthen m f s = (case m s of (Val x, s1) \<Rightarrow> f x s1 | (Stop c, s1) \<Rightarrow> (Stop c, s1))"

definition peek :: "(state \<Rightarrow> 'a) \<Rightarrow> 'a cmd" where
  \<comment> \<open>reading a variable\<close>
  "peek f s = (Val (f s), s)"

definition py_print :: "string \<Rightarrow> unit cmd" where
  "py_print t s = (Val (), s\<lparr>console := console s @ [Print t]\<rparr>)"

definition py_input :: "string \<Rightarrow> string cmd" where
  "py_input p s =
     (case stdin s of
        [] \<Rightarrow> (Stop Blocked, s\<lparr>console := console s @ [Prompt p]\<rparr>)
      | CtrlC # ks \<Rightarrow>
          (Stop (Raised KeyboardInterrupt), s\<lparr>stdin := ks, console := console s @ [Prompt p]\<rparr>)
      | Line t # ks \<Rightarrow> (Val t, s\<lparr>stdin := ks, console := console s @ [Prompt p]\<rparr>))"

definition sys_exit :: "nat \<Rightarrow> 'a cmd" where
  "sys_exit n = stop (Exit n)"

subsection \<open>\<^verbatim>\<open>initialize_genai\<close>\<close>

definition placeholder_key :: string where
  "placeholder_key = ''your gemini api key here''"

definition missing_file_msg :: string where
  "missing_file_msg = ''Could not find the configuration file 'keys.json'. Ensure it exists''"

definition parse_error_msg :: string where
  "parse_error_msg =
     ''Error: Could not parse the key file 'keys.json'. Please check the file format.''"

definition missing_key_msg :: "string \<Rightarrow> string" where
  "missing_key_msg k = ''Error: Missing key '' @ quoted k @ '' in 'keys.json' file.''"

definition key_error :: "string \<Rightarrow> 'a cmd" where
  \<comment> \<open>the \<^verbatim>\<open>except KeyError\<close> clause\<close>
  "key_error k = andthen (py_print (missing_key_msg k)) (\<lambda>_. sys_exit 1)"

definition subscript :: "(string \<times> pyval) list \<Rightarrow> string \<Rightarrow> (pyval \<Rightarrow> 'a cmd) \<Rightarrow> 'a cmd" where
  \<comment> \<open>\<^verbatim>\<open>content[k]\<close> inside the \<^verbatim>\<open>try\<close>\<close>
  "subscript content k f = (case map_of content k of None \<Rightarrow> key_error k | Some v \<Rightarrow> f v)"

definition generative_model :: "env \<Rightarrow> pyval \<Rightarrow> pyval \<Rightarrow> pyval \<Rightarrow> unit cmd" where
  \<comment> \<open>lines 53-57, after the \<^verbatim>\<open>try\<close> statement: what the constructor raises is not caught\<close>
  "generative_model e gemini_model safety_settings generation_config =
     (case construct e gemini_model safety_settings generation_config of
        None \<Rightarrow> ret ()
      | Some x \<Rightarrow> stop (Raised x))"

definition initialize_genai :: "env \<Rightarrow> unit cmd" where
  "initialize_genai e =
     (case config_file e of
        NoFile \<Rightarrow> andthen (py_print missing_file_msg) (\<lambda>_. sys_exit 1)
      | Unreadable \<Rightarrow> stop (Raised PermissionError)
      | Undecodable \<Rightarrow> stop (Raised UnicodeDecodeError)
      | TooDeep \<Rightarrow> stop (Raised RecursionError)
      | Unparseable \<Rightarrow> andthen (py_print parse_error_msg) (\<lambda>_. sys_exit 1)
      | NotADict \<Rightarrow> stop (Raised TypeError)
      | Dict content \<Rightarrow>
          subscript content ''GEMINI_API_KEY'' (\<lambda>gemini_api_key.
          if gemini_api_key = Str placeholder_key then
            andthen (py_print ''To use the Gemini API, you'll need an API key.'') (\<lambda>_.
            andthen (py_print ''Create a key in Google AI Studio.'') (\<lambda>_.
            andthen (py_print ''Save the key to 'keys.json' file.'') (\<lambda>_.
            sys_exit 1)))
          else
            subscript content ''GEMINI_MODEL'' (\<lambda>gemini_model.
            subscript content ''SAFETY_SETTINGS'' (\<lambda>safety_settings.
            subscript content ''GENERATION_CONFIG'' (\<lambda>generation_config.
            generative_model e gemini_model safety_settings generation_config)))))"

subsection \<open>\<^verbatim>\<open>analyze_image_with_gemini\<close>\<close>

text \<open>
  Lines 91-94 evaluate \<^verbatim>\<open>model.start_chat(history=[])\<close>, which returns a new session,
  and then call its \<^verbatim>\<open>send_message\<close> with the keywords \<^verbatim>\<open>message\<close> and \<^verbatim>\<open>images\<close>.
  The method takes the content as its one positional parameter (as line 136 passes the
  query) and has neither keyword, so the call raises \<^verbatim>\<open>TypeError\<close> while its
  arguments are bound: nothing is sent, line 95 is not reached, and the
  \<^verbatim>\<open>except Exception\<close> clause prints the text of that error.
\<close>

definition start_image_chat :: "unit cmd" where
  \<comment> \<open>line 91: a session of its own, with an empty history\<close>
  "start_image_chat s =
     (Val (), s\<lparr>sessions := sessions s + 1, image_chats := image_chats s @ [[]]\<rparr>)"

definition image_failed :: "string \<Rightarrow> string option cmd" where
  \<comment> \<open>the \<^verbatim>\<open>except Exception\<close> clause\<close>
  "image_failed why =
     andthen (py_print (''Error: An unexpected error occurred while analyzing the image: '' @ why))
       (\<lambda>_. ret None)"

definition analyze_image_with_gemini :: "env \<Rightarrow> string \<Rightarrow> string option cmd" where
  "analyze_image_with_gemini e image_path =
     (case open_image e image_path of
        FileNotFound \<Rightarrow>
          andthen (py_print ''Error: The specified image file could not be found.'')
            (\<lambda>_. ret None)
      | OSError why \<Rightarrow> image_failed why
      | Bytes content \<Rightarrow>
          andthen start_image_chat (\<lambda>_.
          image_failed (keyword_error e)))"

subsection \<open>\<^verbatim>\<open>food_ingredients_chat\<close>\<close>

definition send_message :: "env \<Rightarrow> string \<Rightarrow> reply cmd" where
  \<comment> \<open>\<^verbatim>\<open>chat.send_message(query, stream=False)\<close>; the reply is inspected by the caller\<close>
  "send_message e query s =
     (Val (chat_reply e (length (chat s))), s\<lparr>chat := chat s @ [TextMsg query]\<rparr>)"

definition fatal :: "string \<Rightarrow> string \<Rightarrow> unit cmd" where
  "fatal headline why =
     andthen (py_print headline) (\<lambda>_.
     andthen (py_print (why @ '' '' @ nl)) (\<lambda>_.
     sys_exit 1))"

fun api_handlers :: "exc_kind \<Rightarrow> string \<Rightarrow> unit cmd" where
  "api_handlers DeadlineExceeded why =
     andthen (py_print ''Deadline exceeded (Internet connection could be lost)'') (\<lambda>_.
     andthen (py_print (why @ '' '' @ nl)) (\<lambda>_.
     stop Continue))"
| "api_handlers InvalidArgument why =
     fatal ''Request fails API validation or you tried to access a model that requires allowlisting.'' why"
| "api_handlers PermissionDenied why =
     fatal ''Client doesn't have sufficient permission to call the API.'' why"
| "api_handlers NotFound why =
     fatal ''No valid object is found from the designated URL.'' why"
| "api_handlers ResourceExhausted why =
     fatal ''API quota over the limit or server overload.'' why"
| "api_handlers Unknown why =
     fatal ''Server error due to overload or dependency failure.'' why"
| "api_handlers ServiceUnavailable why =
     fatal ''Service is temporarily unavailable.'' why"
| "api_handlers OtherError why = stop (Raised (ApiError OtherError why))"

definition response_text :: "response \<Rightarrow> string cmd" where
  \<comment> \<open>\<^verbatim>\<open>response.text\<close>; the \<^verbatim>\<open>ValueError\<close> has no handler\<close>
  "response_text response =
     (case response of Text t \<Rightarrow> ret t | NoText \<Rightarrow> stop (Raised ValueError))"

definition submit :: "env \<Rightarrow> string \<Rightarrow> (response \<Rightarrow> unit cmd) \<Rightarrow> unit cmd" where
  \<comment> \<open>the \<^verbatim>\<open>try\<close> statement that each option ends with (lines 134-173, 191-230, 246-292):
     the query is sent; \<open>on_response\<close> is the rest of the \<^verbatim>\<open>try\<close> block, run on
     the response; the \<^verbatim>\<open>except\<close> clauses are the same seven in all three\<close>
  "submit e query on_response =
     andthen (send_message e query) (\<lambda>reply.
     case reply of
       Returns response \<Rightarrow> on_response response
     | Raise k why \<Rightarrow> api_handlers k why)"

definition empty_food_msg :: string where
  "empty_food_msg = ''The food item is empty. Please try again.'' @ nl"

definition empty_dish_msg :: string where
  "empty_dish_msg = ''Dish or ingredient input is empty. Please try again.'' @ nl"

definition query1 :: "string \<Rightarrow> string" where
  "query1 food_item =
     ''What are the detailed and specific ingredients of '' @ food_item
     @ ''? Include any sub-ingredients and specific types of ingredients used.''"

definition query2 :: "string \<Rightarrow> string \<Rightarrow> string" where
  "query2 dish ingredient =
     ''Does '' @ dish @ '' contain '' @ ingredient
     @ ''? Provide detailed information on how this ingredient is used in the dish if present.''"

definition query3 :: "string \<Rightarrow> string \<Rightarrow> string" where
  "query3 food_item description =
     ''Analyze the food item '' @ quoted food_item @ ''. '' @ description @ ''. ''
     @ ''Does it contain meat, seafood, red meat, poultry, other meat, eggs, dairy, honey, seafood, milk, fish, shellfish, tree nuts, peanuts, soy? ''
     @ ''Provide the response as '1' for yes and '0' for no. ''
     @ ''Also, indicate if it is high, medium, or low in wheat, gluten, lactose, paleo, sugar, carbs, protein, fat, calories.''"

definition use_last_prompt :: "string \<Rightarrow> string \<Rightarrow> string" where
  "use_last_prompt what item = ''Use the last analyzed '' @ what @ '' '' @ quoted item @ ''? (yes/no): ''"

definition ask_item :: "string \<Rightarrow> string \<Rightarrow> string cmd" where
  \<comment> \<open>lines 121-128 and 176-183: reuse the last item or ask for one\<close>
  "ask_item what question =
     andthen (peek last_food_item) (\<lambda>last_food_item.
     if truthy last_food_item then
       andthen (py_input (use_last_prompt what (the last_food_item))) (\<lambda>use_last.
       if lower use_last = ''yes'' then ret (the last_food_item)
       else py_input question)
     else py_input question)"

definition option1 :: "env \<Rightarrow> unit cmd" where
  "option1 e =
     andthen (ask_item ''food item'' ''Enter a food to get its ingredients: '') (\<lambda>food_item.
     if food_item = [] \<or> isspace food_item then
       andthen (py_print empty_food_msg) (\<lambda>_. stop Continue)
     else
       submit e (query1 food_item) (\<lambda>response.
         andthen (py_print ''Ingredients: '') (\<lambda>_.
         andthen (response_text response) (\<lambda>text.
         py_print text))))"

definition option2 :: "env \<Rightarrow> unit cmd" where
  "option2 e =
     andthen (ask_item ''dish'' ''Enter the name of the dish: '') (\<lambda>dish.
     andthen (py_input ''Enter the ingredient to check: '') (\<lambda>ingredient.
     if dish = [] \<or> isspace dish \<or> ingredient = [] \<or> isspace ingredient then
       andthen (py_print empty_dish_msg) (\<lambda>_. stop Continue)
     else
       submit e (query2 dish ingredient) (\<lambda>response.
         andthen (py_print ''Response: '') (\<lambda>_.
         andthen (response_text response) (\<lambda>text.
         py_print text)))))"

definition remember :: "string \<Rightarrow> string \<Rightarrow> unit cmd" where
  \<comment> \<open>lines 256-257\<close>
  "remember food_item description s =
     (Val (), s\<lparr>last_food_item := Some food_item, last_dish_description := Some description\<rparr>)"

definition describe :: "env \<Rightarrow> string \<Rightarrow> string \<Rightarrow> string cmd" where
  \<comment> \<open>lines 241-244: the description, extended by what the image analysis returns\<close>
  "describe e description image_path =
     (if image_path \<noteq> [] then
        andthen (analyze_image_with_gemini e image_path) (\<lambda>extracted_text.
          if truthy extracted_text then ret (description @ '' '' @ the extracted_text)
          else ret description)
      else ret description)"

definition option3 :: "env \<Rightarrow> unit cmd" where
  "option3 e =
     andthen (py_input ''Enter the name of the food item: '') (\<lambda>food_item.
     andthen (py_input ''Enter a description of the food item: '') (\<lambda>description.
     andthen (py_input ''Enter the local path of the food item image (optional): '') (\<lambda>image_path.
     if food_item = [] \<or> isspace food_item then
       andthen (py_print empty_food_msg) (\<lambda>_. stop Continue)
     else
       andthen (describe e description image_path) (\<lambda>description.
       submit e (query3 food_item description) (\<lambda>response.
         andthen (py_print ''Analysis: '') (\<lambda>_.
         andthen (response_text response) (\<lambda>text.
         andthen (py_print text) (\<lambda>_.
         remember food_item description))))))))"

definition menu :: "unit cmd" where
  "menu =
     andthen (py_print ''Options:'') (\<lambda>_.
     andthen (py_print ''1. Get ingredients of a food item.'') (\<lambda>_.
     andthen (py_print ''2. Check if an ingredient is in a dish.'') (\<lambda>_.
     py_print ''3. Analyze the properties of a food item.'')))"

definition body :: "env \<Rightarrow> unit cmd" where
  \<comment> \<open>one iteration of \<^verbatim>\<open>while True\<close>\<close>
  "body e =
     andthen menu (\<lambda>_.
     andthen (py_input ''Choose an option (1, 2, or 3): '') (\<lambda>option.
     if option = ''1'' then option1 e
     else if option = ''2'' then option2 e
     else if option = ''3'' then option3 e
     else py_print (''Invalid option. Please enter 1, 2, or 3.'' @ nl)))"

definition turn :: "env \<Rightarrow> state \<Rightarrow> control \<times> state" where
  \<comment> \<open>an iteration that runs to its end continues the loop, as \<^verbatim>\<open>continue\<close> does\<close>
  "turn e s = (case body e s of (Val _, s1) \<Rightarrow> (Continue, s1) | (Stop c, s1) \<Rightarrow> (c, s1))"

fun loop :: "env \<Rightarrow> nat \<Rightarrow> state \<Rightarrow> control \<times> state" where
  \<comment> \<open>the first \<open>n\<close> iterations of \<^verbatim>\<open>while True\<close>, fewer when one of them leaves the
     loop; \<open>Continue\<close> says that all \<open>n\<close> were run and the loop goes on\<close>
  "loop e 0 s = (Continue, s)"
| "loop e (Suc n) s =
     (case turn e s of (Continue, s1) \<Rightarrow> loop e n s1 | (c, s1) \<Rightarrow> (c, s1))"

definition start_chat :: "unit cmd" where
  \<comment> \<open>line 108: \<^verbatim>\<open>chat = model.start_chat(history=[])\<close>\<close>
  "start_chat s = (Val (), s\<lparr>sessions := sessions s + 1, chat := []\<rparr>)"

definition forget :: "unit cmd" where
  \<comment> \<open>lines 110-111\<close>
  "forget s = (Val (), s\<lparr>last_food_item := None, last_dish_description := None\<rparr>)"

definition startup :: "env \<Rightarrow> unit cmd" where
  \<comment> \<open>lines 106-111, all of \<^verbatim>\<open>food_ingredients_chat\<close> before the loop\<close>
  "startup e =
     andthen (py_print ''You are using the Food Ingredients Model.'') (\<lambda>_.
     andthen (initialize_genai e) (\<lambda>_.
     andthen start_chat (\<lambda>_.
     forget)))"

definition food_ingredients_chat :: "env \<Rightarrow> nat \<Rightarrow> state \<Rightarrow> control \<times> state" where
  "food_ingredients_chat e n s =
     (case startup e s of (Val _, s1) \<Rightarrow> loop e n s1 | (Stop c, s1) \<Rightarrow> (c, s1))"

definition main :: "env \<Rightarrow> nat \<Rightarrow> state \<Rightarrow> control \<times> state" where
  "main e n s =
     (if length (args e) > 0 then
        (case py_print (''Error: Unknown argument: '' @ hd (args e)) s of
           (_, s1) \<Rightarrow> (Exit 1, s1))
      else food_ingredients_chat e n s)"

definition power_on :: "key list \<Rightarrow> state" where
  \<comment> \<open>the process before its first statement, with the keys the user will type\<close>
  "power_on ks =
     \<lparr>stdin = ks, console = [], sessions = 0, chat = [], image_chats = [],
      last_food_item = None, last_dish_description = None\<rparr>"

definition script :: "env \<Rightarrow> nat \<Rightarrow> key list \<Rightarrow> control \<times> state" where
  \<comment> \<open>lines 307-312: the interrupt handler around \<^verbatim>\<open>main\<close>\<close>
  "script e n ks =
     (case main e n (power_on ks) of
        (Raised KeyboardInterrupt, s1) \<Rightarrow> (Exit 0, s1\<lparr>console := console s1 @ [Print ''___ See ya! ___'']\<rparr>)
      | (c, s1) \<Rightarrow> (c, s1))"

definition exit_status :: "control \<Rightarrow> nat option" where
  \<comment> \<open>the status the interpreter ends with: an uncaught exception gives 1\<close>
  "exit_status c = (case c of Exit n \<Rightarrow> Some n | Raised _ \<Rightarrow> Some 1 | _ \<Rightarrow> None)"

subsection \<open>Names used in the statements\<close>

definition required_keys :: "string list" where
  \<comment> \<open>the keys that lines 26 and 35-37 subscript, in that order\<close>
  "required_keys = [''GEMINI_API_KEY'', ''GEMINI_MODEL'', ''SAFETY_SETTINGS'', ''GENERATION_CONFIG'']"

definition banner :: event where
  \<comment> \<open>line 106\<close>
  "banner = Print ''You are using the Food Ingredients Model.''"

definition kitchen :: env where
  \<comment> \<open>a complete configuration that the constructor accepts, one readable image, and a
     service that answers the first chat message and times out afterwards\<close>
  "kitchen =
     \<lparr>args = [],
      config_file = Dict [(''GEMINI_API_KEY'', Str ''secret''), (''GEMINI_MODEL'', Str ''gemini-pro''),
                          (''SAFETY_SETTINGS'', Opaque), (''GENERATION_CONFIG'', Opaque)],
      construct = (\<lambda>m s g. None),
      open_image = (\<lambda>p. if p = ''pizza.png'' then Bytes ''PNG'' else FileNotFound),
      chat_reply = (\<lambda>n. if n = 0 then Returns (Text ''flour, water'')
                          else Raise DeadlineExceeded ''504''),
      keyword_error = ''send_message() got an unexpected keyword argument '' @ quoted ''message''\<rparr>"

subsection \<open>Vocabulary of the proofs\<close>

definition keeps :: "(state \<Rightarrow> 'f) \<Rightarrow> 'a cmd \<Rightarrow> bool" where
  \<comment> \<open>the command leaves the observation \<open>f\<close> of the state as it was\<close>
  "keeps f m = (\<forall>s. f (snd (m s)) = f s)"

definition pres :: "(state \<Rightarrow> bool) \<Rightarrow> 'a cmd \<Rightarrow> bool" where
  \<comment> \<open>the command maintains the invariant \<open>P\<close>\<close>
  "pres P m = (\<forall>s. P s \<longrightarrow> P (snd (m s)))"

definition menu_events :: "event list" where
  \<comment> \<open>what lines 114-118 write\<close>
  "menu_events =
     [Print ''Options:'',
      Print ''1. Get ingredients of a food item.'',
      Print ''2. Check if an ingredient is in a dish.'',
      Print ''3. Analyze the properties of a food item.'',
      Prompt ''Choose an option (1, 2, or 3): '']"

definition handled :: "env \<Rightarrow> unit cmd \<Rightarrow> bool" where
  \<comment> \<open>the command sends nothing on the main chat, or it sends one query and ends as
     the reply to that query dictates\<close>
  "handled e m =
     (\<forall>s. chat (snd (m s)) = chat s
        \<or> (\<exists>q. chat (snd (m s)) = chat s @ [TextMsg q])
          \<and> (case chat_reply e (length (chat s)) of
                Returns r \<Rightarrow>
                  (case r of Text t \<Rightarrow> fst (m s) = Val ()
                           | NoText \<Rightarrow> fst (m s) = Stop (Raised ValueError))
              | Raise k why \<Rightarrow> fst (m s) = fst (api_handlers k why s)))"

definition sound_memory :: "state \<Rightarrow> bool" where
  \<comment> \<open>a remembered food name passed the check of lines 237-239\<close>
  "sound_memory s = (case last_food_item s of None \<Rightarrow> True | Some f \<Rightarrow> f \<noteq> [] \<and> \<not> isspace f)"

text \<open>The prompts among the events of a console, in order.\<close>

fun prompts :: "event list \<Rightarrow> string list" where
  "prompts [] = []"
| "prompts (Prompt p # evs) = p # prompts evs"
| "prompts (Print t # evs) = prompts evs"

section \<open>Startup\<close>

lemmas cmd_defs = andthen_def py_print_def py_input_def sys_exit_def stop_def ret_def peek_def
  response_text_def

lemmas start_defs = key_error_def subscript_def initialize_genai_def generative_model_def startup_def
  food_ingredients_chat_def main_def script_def power_on_def banner_def

lemma file_msg_names_file: "\<exists>a b. missing_file_msg = a @ ''keys.json'' @ b"
proof -
  have "missing_file_msg =
      (''Could not find the configuration file '' @ [CHR 0x27]) @ ''keys.json'' @ ([CHR 0x27] @ ''. Ensure it exists'')"
    by (simp add: missing_file_msg_def)
  then show ?thesis by blast
qed

lemma key_msg_names_key: "\<exists>a b. missing_key_msg k = a @ k @ b"
proof -
  have "missing_key_msg k = (''Error: Missing key '' @ [CHR 0x27]) @ k @ ([CHR 0x27] @ '' in 'keys.json' file.'')"
    by (simp add: missing_key_msg_def quoted_def)
  then show ?thesis by blast
qed

lemma startup_messages_differ:
  "missing_file_msg \<noteq> parse_error_msg"
  "missing_key_msg k \<noteq> missing_file_msg"
  "missing_key_msg k \<noteq> parse_error_msg"
  by (simp_all add: missing_file_msg_def parse_error_msg_def missing_key_msg_def)

lemma no_file_exit:
  "args e = [] \<Longrightarrow> config_file e = NoFile \<Longrightarrow>
   script e n ks = (Exit 1, (power_on ks)\<lparr>console := [banner, Print missing_file_msg]\<rparr>)"
  by (simp add: cmd_defs start_defs)

lemma unparseable_exit:
  "args e = [] \<Longrightarrow> config_file e = Unparseable \<Longrightarrow>
   script e n ks = (Exit 1, (power_on ks)\<lparr>console := [banner, Print parse_error_msg]\<rparr>)"
  by (simp add: cmd_defs start_defs)

lemma missing_key_exit:
  assumes "args e = []" "config_file e = Dict content"
    and "\<exists>k\<in>set required_keys. map_of content k = None"
    and "map_of content ''GEMINI_API_KEY'' \<noteq> Some (Str placeholder_key)"
  shows "\<exists>k\<in>set required_keys. map_of content k = None \<and>
     script e n ks = (Exit 1, (power_on ks)\<lparr>console := [banner, Print (missing_key_msg k)]\<rparr>)"
  using assms by (auto simp add: cmd_defs start_defs required_keys_def split: option.splits)

lemma placeholder_exit:
  assumes "args e = []" "config_file e = Dict content"
    and "map_of content ''GEMINI_API_KEY'' = Some (Str placeholder_key)"
  shows "script e n ks =
     (Exit 1, (power_on ks)\<lparr>console :=
        [banner,
         Print ''To use the Gemini API, you'll need an API key.'',
         Print ''Create a key in Google AI Studio.'',
         Print ''Save the key to 'keys.json' file.'']\<rparr>)"
  using assms by (simp add: cmd_defs start_defs)

text \<open>
  C9. A configuration file that is present and parses, and whose API-key field holds the
  placeholder \<open>your gemini api key here\<close>, makes the script print the three lines of
  instructions and exit with status 1; no session was started and no message was sent.
\<close>

theorem placeholder_key_exits_before_any_request:
  assumes "args e = []" and "config_file e = Dict content"
    and "map_of content ''GEMINI_API_KEY'' = Some (Str placeholder_key)"
  shows "fst (script e n ks) = Exit 1
     \<and> exit_status (fst (script e n ks)) = Some 1
     \<and> console (snd (script e n ks)) =
         [Print ''You are using the Food Ingredients Model.'',
          Print ''To use the Gemini API, you'll need an API key.'',
          Print ''Create a key in Google AI Studio.'',
          Print ''Save the key to 'keys.json' file.'']
     \<and> sessions (snd (script e n ks)) = 0
     \<and> chat (snd (script e n ks)) = []
     \<and> image_chats (snd (script e n ks)) = []"
  using placeholder_exit [OF assms, where n = n and ks = ks]
  by (simp add: power_on_def banner_def exit_status_def)

theorem placeholder_key_exits_before_any_request_witness:
  "fst (script (kitchen\<lparr>config_file := Dict [(''GEMINI_API_KEY'', Str ''your gemini api key here'')]\<rparr>)
          5 [Line ''1'', Line ''pizza'']) = Exit 1
   \<and> chat (snd (script (kitchen\<lparr>config_file := Dict [(''GEMINI_API_KEY'', Str ''your gemini api key here'')]\<rparr>)
          5 [Line ''1'', Line ''pizza''])) = []"
  using placeholder_key_exits_before_any_request
    [where e = "kitchen\<lparr>config_file := Dict [(''GEMINI_API_KEY'', Str ''your gemini api key here'')]\<rparr>"
       and content = "[(''GEMINI_API_KEY'', Str ''your gemini api key here'')]"
       and n = 5 and ks = "[Line ''1'', Line ''pizza'']"]
  by (simp add: kitchen_def placeholder_key_def)

text \<open>
  What the three \<^verbatim>\<open>except\<close> clauses of lines 41-51 do, with no command-line argument: a
  missing \<open>keys.json\<close>, one that \<^verbatim>\<open>json.load\<close> rejects with \<^verbatim>\<open>JSONDecodeError\<close>, and one
  that parses to an object lacking a required key each end the script with status 1. The
  three messages differ from one another; the message for the missing file contains the
  file name and the message for a missing key contains that key. When the API key is
  present and is the placeholder, the exit of C9 comes first, with its own message.
\<close>

lemma caught_config_errors:
  assumes "args e = []"
  shows "(config_file e = NoFile \<longrightarrow>
            script e n ks = (Exit 1, (power_on ks)\<lparr>console := [banner, Print missing_file_msg]\<rparr>))
     \<and> (config_file e = Unparseable \<longrightarrow>
            script e n ks = (Exit 1, (power_on ks)\<lparr>console := [banner, Print parse_error_msg]\<rparr>))
     \<and> (config_file e = Dict content \<and> (\<exists>k\<in>set required_keys. map_of content k = None) \<longrightarrow>
            fst (script e n ks) = Exit 1
          \<and> console (snd (script e n ks)) \<noteq> [banner, Print missing_file_msg]
          \<and> console (snd (script e n ks)) \<noteq> [banner, Print parse_error_msg]
          \<and> (map_of content ''GEMINI_API_KEY'' \<noteq> Some (Str placeholder_key) \<longrightarrow>
                (\<exists>k\<in>set required_keys. map_of content k = None \<and>
                   script e n ks = (Exit 1, (power_on ks)\<lparr>console := [banner, Print (missing_key_msg k)]\<rparr>))))
     \<and> missing_file_msg \<noteq> parse_error_msg
     \<and> (\<forall>k. missing_key_msg k \<noteq> missing_file_msg \<and> missing_key_msg k \<noteq> parse_error_msg)
     \<and> (\<exists>a b. missing_file_msg = a @ ''keys.json'' @ b)
     \<and> (\<forall>k. \<exists>a b. missing_key_msg k = a @ k @ b)"
proof -
  have dict: "fst (script e n ks) = Exit 1
      \<and> console (snd (script e n ks)) \<noteq> [banner, Print missing_file_msg]
      \<and> console (snd (script e n ks)) \<noteq> [banner, Print parse_error_msg]
      \<and> (map_of content ''GEMINI_API_KEY'' \<noteq> Some (Str placeholder_key) \<longrightarrow>
            (\<exists>k\<in>set required_keys. map_of content k = None \<and>
               script e n ks = (Exit 1, (power_on ks)\<lparr>console := [banner, Print (missing_key_msg k)]\<rparr>)))"
    if c: "config_file e = Dict content" and m: "\<exists>k\<in>set required_keys. map_of content k = None"
  proof (cases "map_of content ''GEMINI_API_KEY'' = Some (Str placeholder_key)")
    case True
    from placeholder_exit [OF assms c True, where n = n and ks = ks] show ?thesis
      using True by (simp add: missing_file_msg_def parse_error_msg_def)
  next
    case False
    from missing_key_exit [OF assms c m False, where n = n and ks = ks]
    obtain k where "k \<in> set required_keys" "map_of content k = None"
      and r: "script e n ks = (Exit 1, (power_on ks)\<lparr>console := [banner, Print (missing_key_msg k)]\<rparr>)"
      by blast
    then show ?thesis using False startup_messages_differ(2,3) [of k] by auto
  qed
  show ?thesis
    using no_file_exit [OF assms, where n = n and ks = ks] unparseable_exit [OF assms, where n = n and ks = ks] dict
      startup_messages_differ file_msg_names_file key_msg_names_key
    by blast
qed

text \<open>
  C6 does not hold of every malformed file. A \<open>keys.json\<close> whose bytes are not UTF-8 makes
  \<^verbatim>\<open>json.load\<close> raise \<^verbatim>\<open>UnicodeDecodeError\<close>, which is not a \<^verbatim>\<open>JSONDecodeError\<close>: none of
  the clauses of lines 41-51 catches it, the exception leaves the script, and the console
  shows the banner only, without the message of line 46 for a file that cannot be parsed.
\<close>

theorem undecodable_config_is_not_reported:
  "script (kitchen\<lparr>config_file := Undecodable\<rparr>) 1 [Line ''1''] =
     (Raised UnicodeDecodeError, (power_on [Line ''1''])\<lparr>console := [banner]\<rparr>)
   \<and> Print parse_error_msg \<notin> set (console (snd (script (kitchen\<lparr>config_file := Undecodable\<rparr>) 1 [Line ''1''])))"
  by (simp add: cmd_defs start_defs kitchen_def parse_error_msg_def)

text \<open>
  The outcomes of reading \<open>keys.json\<close> that no clause of lines 41-51 catches, and what the
  constructor of line 53 raises, leave the script as exceptions, after the banner.
\<close>

lemma uncaught_config_errors:
  assumes "args e = []"
  shows "(config_file e = Unreadable \<longrightarrow>
            script e n ks = (Raised PermissionError, (power_on ks)\<lparr>console := [banner]\<rparr>))
     \<and> (config_file e = Undecodable \<longrightarrow>
            script e n ks = (Raised UnicodeDecodeError, (power_on ks)\<lparr>console := [banner]\<rparr>))
     \<and> (config_file e = TooDeep \<longrightarrow>
            script e n ks = (Raised RecursionError, (power_on ks)\<lparr>console := [banner]\<rparr>))
     \<and> (config_file e = NotADict \<longrightarrow>
            script e n ks = (Raised TypeError, (power_on ks)\<lparr>console := [banner]\<rparr>))
     \<and> (config_file e = Dict content
          \<and> map_of content ''GEMINI_API_KEY'' = Some key \<and> key \<noteq> Str placeholder_key
          \<and> map_of content ''GEMINI_MODEL'' = Some gemini_model
          \<and> map_of content ''SAFETY_SETTINGS'' = Some safety_settings
          \<and> map_of content ''GENERATION_CONFIG'' = Some generation_config
          \<and> construct e gemini_model safety_settings generation_config = Some x
          \<and> x \<noteq> KeyboardInterrupt \<longrightarrow>
            script e n ks = (Raised x, (power_on ks)\<lparr>console := [banner]\<rparr>))"
  using assms by (cases x) (simp_all add: cmd_defs start_defs)

section \<open>What a command leaves alone\<close>

lemma keeps_andthen: "keeps f m \<Longrightarrow> (\<And>x. keeps f (g x)) \<Longrightarrow> keeps f (andthen m g)"
  unfolding keeps_def andthen_def
proof
  fix s
  assume m: "\<forall>s. f (snd (m s)) = f s" and g: "\<And>x. \<forall>s. f (snd (g x s)) = f s"
  obtain r s1 where ms: "m s = (r, s1)" by (cases "m s")
  from m ms have "f s1 = f s" by (metis snd_conv)
  with g ms show "f (snd (case m s of (Val x, s1) \<Rightarrow> g x s1 | (Stop c, s1) \<Rightarrow> (Stop c, s1))) = f s"
    by (cases r) simp_all
qed

lemma keeps_ret: "keeps f (ret x)" by (simp add: keeps_def ret_def)
lemma keeps_stop: "keeps f (stop c)" by (simp add: keeps_def stop_def)
lemma keeps_exit: "keeps f (sys_exit n)" by (simp add: sys_exit_def keeps_stop)
lemma keeps_peek: "keeps f (peek g)" by (simp add: keeps_def peek_def)
lemma keeps_if: "keeps f a \<Longrightarrow> keeps f b \<Longrightarrow> keeps f (if c then a else b)" by simp
lemma keeps_reply: "(\<And>x. keeps f (a x)) \<Longrightarrow> (\<And>k w. keeps f (b k w)) \<Longrightarrow>
   keeps f (case r of Returns x \<Rightarrow> a x | Raise k w \<Rightarrow> b k w)" by (cases r) simp_all

lemma keeps_response_text: "keeps f (response_text r)"
  by (cases r) (simp_all add: response_text_def keeps_ret keeps_stop)

lemma keeps_print: "(\<And>s c. f (s\<lparr>console := c\<rparr>) = f s) \<Longrightarrow> keeps f (py_print t)"
  by (simp add: keeps_def py_print_def)

lemma keeps_input:
  "(\<And>s c. f (s\<lparr>console := c\<rparr>) = f s) \<Longrightarrow> (\<And>s k. f (s\<lparr>stdin := k\<rparr>) = f s) \<Longrightarrow> keeps f (py_input p)"
  by (simp add: keeps_def py_input_def split: list.splits key.splits)

lemma keeps_fatal: "(\<And>s c. f (s\<lparr>console := c\<rparr>) = f s) \<Longrightarrow> keeps f (fatal h w)"
  unfolding fatal_def by (intro keeps_andthen keeps_print keeps_exit)

lemma keeps_handlers: "(\<And>s c. f (s\<lparr>console := c\<rparr>) = f s) \<Longrightarrow> keeps f (api_handlers k w)"
  by (cases k) (simp_all add: keeps_fatal keeps_andthen keeps_print keeps_stop)

lemma keeps_menu: "(\<And>s c. f (s\<lparr>console := c\<rparr>) = f s) \<Longrightarrow> keeps f menu"
  unfolding menu_def by (intro keeps_andthen keeps_print)

lemma keeps_ask_item:
  "(\<And>s c. f (s\<lparr>console := c\<rparr>) = f s) \<Longrightarrow> (\<And>s k. f (s\<lparr>stdin := k\<rparr>) = f s) \<Longrightarrow> keeps f (ask_item what q)"
  unfolding ask_item_def by (intro keeps_andthen keeps_peek keeps_if keeps_input keeps_ret)

lemma keeps_send_message: "(\<And>s c. f (s\<lparr>chat := c\<rparr>) = f s) \<Longrightarrow> keeps f (send_message e q)"
  by (simp add: keeps_def send_message_def)

lemma keeps_start_image_chat:
  "(\<And>s n c. f (s\<lparr>sessions := n, image_chats := c\<rparr>) = f s) \<Longrightarrow> keeps f start_image_chat"
  by (simp add: keeps_def start_image_chat_def)

lemma keeps_image_failed: "(\<And>s c. f (s\<lparr>console := c\<rparr>) = f s) \<Longrightarrow> keeps f (image_failed w)"
  unfolding image_failed_def by (intro keeps_andthen keeps_print keeps_ret)

lemma keeps_analyze:
  assumes "\<And>s c. f (s\<lparr>console := c\<rparr>) = f s" "keeps f start_image_chat"
  shows "keeps f (analyze_image_with_gemini e p)"
proof (cases "open_image e p")
  case FileNotFound
  then show ?thesis unfolding analyze_image_with_gemini_def
    by (simp add: keeps_andthen keeps_print keeps_ret assms)
next
  case (OSError w)
  then show ?thesis unfolding analyze_image_with_gemini_def
    by (simp add: keeps_image_failed assms)
next
  case (Bytes b)
  then show ?thesis unfolding analyze_image_with_gemini_def
    by (simp add: keeps_andthen keeps_image_failed assms)
qed

lemma keeps_describe:
  assumes "\<And>s c. f (s\<lparr>console := c\<rparr>) = f s" "keeps f start_image_chat"
  shows "keeps f (describe e d p)"
  unfolding describe_def
  by (intro keeps_if keeps_andthen keeps_ret keeps_analyze assms)

lemma keeps_submit:
  assumes "\<And>s c. f (s\<lparr>console := c\<rparr>) = f s" "\<And>s c. f (s\<lparr>chat := c\<rparr>) = f s"
    and "\<And>r. keeps f (on_response r)"
  shows "keeps f (submit e q on_response)"
  unfolding submit_def
  by (intro keeps_andthen keeps_send_message keeps_reply keeps_handlers assms)

lemma keeps_option1: "keeps (\<lambda>s. (last_food_item s, last_dish_description s)) (option1 e)"
  unfolding option1_def
  by (intro keeps_andthen keeps_ask_item keeps_if keeps_print keeps_stop keeps_submit
      keeps_response_text) simp_all

lemma keeps_option2: "keeps (\<lambda>s. (last_food_item s, last_dish_description s)) (option2 e)"
  unfolding option2_def
  by (intro keeps_andthen keeps_ask_item keeps_input keeps_if keeps_print keeps_stop keeps_submit
      keeps_response_text) simp_all

lemma snd_turn: "snd (turn e s) = snd (body e s)"
  by (simp add: turn_def split: prod.splits res.splits)

lemma body_dispatch:
  "stdin s = Line opt # rest \<Longrightarrow>
   body e s =
     (if opt = ''1'' then option1 e
      else if opt = ''2'' then option2 e
      else if opt = ''3'' then option3 e
      else py_print (''Invalid option. Please enter 1, 2, or 3.'' @ nl))
     (s\<lparr>stdin := rest, console := console s @ menu_events\<rparr>)"
  by (simp add: body_def menu_def cmd_defs menu_events_def)

section \<open>The loop body\<close>

text \<open>
  C5. An iteration whose menu answer is not \<open>3\<close>, so every iteration of option 1 and of
  option 2, whatever the service replies, leaves \<open>last_food_item\<close> and
  \<open>last_dish_description\<close> as they were; only option 3 can write them.
\<close>

theorem options_1_and_2_keep_memory:
  assumes "stdin s = Line opt # rest" and "opt \<noteq> ''3''"
  shows "last_food_item (snd (turn e s)) = last_food_item s
     \<and> last_dish_description (snd (turn e s)) = last_dish_description s"
proof -
  let ?f = "\<lambda>s. (last_food_item s, last_dish_description s)"
  define s1 where "s1 = s\<lparr>stdin := rest, console := console s @ menu_events\<rparr>"
  define m where "m = (if opt = ''1'' then option1 e
      else if opt = ''2'' then option2 e
      else py_print (''Invalid option. Please enter 1, 2, or 3.'' @ nl))"
  have "keeps ?f m"
    unfolding m_def by (intro keeps_if keeps_option1 keeps_option2 keeps_print) simp
  then have "?f (snd (m s1)) = ?f s1"
    unfolding keeps_def by blast
  moreover have "body e s = m s1"
    using assms by (simp add: body_dispatch m_def s1_def)
  ultimately show ?thesis by (simp add: snd_turn s1_def)
qed

theorem options_1_and_2_keep_memory_witness:
  "last_food_item (snd (turn kitchen
      ((power_on [Line ''1'', Line ''no'', Line ''soup''])\<lparr>last_food_item := Some ''pizza''\<rparr>))) = Some ''pizza''
   \<and> last_dish_description (snd (turn kitchen
      ((power_on [Line ''2'', Line ''yes'', Line ''basil''])\<lparr>last_food_item := Some ''pizza''\<rparr>))) = None"
  using options_1_and_2_keep_memory
      [where s = "(power_on [Line ''1'', Line ''no'', Line ''soup''])\<lparr>last_food_item := Some ''pizza''\<rparr>"
         and opt = "''1''" and rest = "[Line ''no'', Line ''soup'']" and e = kitchen]
    options_1_and_2_keep_memory
      [where s = "(power_on [Line ''2'', Line ''yes'', Line ''basil''])\<lparr>last_food_item := Some ''pizza''\<rparr>"
         and opt = "''2''" and rest = "[Line ''yes'', Line ''basil'']" and e = kitchen]
  by (simp add: power_on_def)

lemma prompts_append: "prompts (a @ b) = prompts a @ prompts b"
  by (induction a rule: prompts.induct) simp_all

lemma prompts_menu: "prompts menu_events = [''Choose an option (1, 2, or 3): '']"
  by (simp add: menu_events_def)

lemma handlers_control:
  "fst (api_handlers k why s) =
     Stop (case k of DeadlineExceeded \<Rightarrow> Continue
                   | OtherError \<Rightarrow> Raised (ApiError OtherError why)
                   | _ \<Rightarrow> Exit 1)"
  by (cases k) (simp_all add: cmd_defs fatal_def)

lemma handlers_prompts: "prompts (console (snd (api_handlers k why s))) = prompts (console s)"
  by (cases k) (simp_all add: cmd_defs fatal_def prompts_append)

lemma handlers_chat: "chat (snd (api_handlers k why s)) = chat s"
  using keeps_handlers [of chat k why] by (simp add: keeps_def)

lemma handlers_stdin: "stdin (snd (api_handlers k why s)) = stdin s"
  using keeps_handlers [of stdin k why] by (simp add: keeps_def)

lemma handlers_memory:
  "last_food_item (snd (api_handlers k why s)) = last_food_item s"
  "last_dish_description (snd (api_handlers k why s)) = last_dish_description s"
  using keeps_handlers [of last_food_item k why] keeps_handlers [of last_dish_description k why]
  by (simp_all add: keeps_def)

lemma handlers_sessions:
  "sessions (snd (api_handlers k why s)) = sessions s"
  "image_chats (snd (api_handlers k why s)) = image_chats s"
  using keeps_handlers [of sessions k why] keeps_handlers [of image_chats k why]
  by (simp_all add: keeps_def)

lemmas handlers_simps = handlers_prompts handlers_chat handlers_stdin handlers_memory handlers_sessions

lemma submit_Returns:
  "chat_reply e (length (chat s)) = Returns r \<Longrightarrow>
   submit e q on_response s = on_response r (s\<lparr>chat := chat s @ [TextMsg q]\<rparr>)"
  by (simp add: submit_def send_message_def andthen_def)

lemma submit_Raise:
  "chat_reply e (length (chat s)) = Raise k why \<Longrightarrow>
   submit e q on_response s = api_handlers k why (s\<lparr>chat := chat s @ [TextMsg q]\<rparr>)"
  by (simp add: submit_def send_message_def andthen_def)

lemma submit_chat:
  assumes "\<And>r. keeps chat (on_response r)"
  shows "chat (snd (submit e q on_response s)) = chat s @ [TextMsg q]"
proof (cases "chat_reply e (length (chat s))")
  case (Returns r)
  from assms [of r]
  have "chat (snd (on_response r (s\<lparr>chat := chat s @ [TextMsg q]\<rparr>))) = chat s @ [TextMsg q]"
    by (simp add: keeps_def)
  with Returns show ?thesis by (simp add: submit_Returns)
next
  case (Raise k why)
  then show ?thesis by (simp add: submit_Raise handlers_simps)
qed

lemma submit_prompts:
  assumes "\<And>r s. prompts (console (snd (on_response r s))) = prompts (console s)"
  shows "prompts (console (snd (submit e q on_response s))) = prompts (console s)"
proof (cases "chat_reply e (length (chat s))")
  case (Returns r)
  then show ?thesis by (simp add: submit_Returns assms)
next
  case (Raise k why)
  then show ?thesis by (simp add: submit_Raise handlers_simps)
qed

lemma shown_keeps:
  assumes "\<And>s c. f (s\<lparr>console := c\<rparr>) = f s"
  shows "keeps f (andthen (py_print headline) (\<lambda>_. andthen (response_text r) (\<lambda>text. py_print text)))"
  by (intro keeps_andthen keeps_print keeps_response_text assms)

lemma shown_prompts:
  "prompts (console (snd (andthen (py_print headline) (\<lambda>_.
      andthen (response_text r) (\<lambda>text. py_print text)) s))) = prompts (console s)"
  by (cases r) (simp_all add: cmd_defs prompts_append)

lemma shown_control:
  "fst (andthen (py_print headline) (\<lambda>_. andthen (response_text r) (\<lambda>text. py_print text)) s) =
     (case r of Text t \<Rightarrow> Val () | NoText \<Rightarrow> Stop (Raised ValueError))"
  by (cases r) (simp_all add: cmd_defs)

lemma reuse1_body:
  assumes "stdin s = Line ''1'' # Line answer # rest" and "lower answer = ''yes''"
    and "last_food_item s = Some food_item" and "food_item \<noteq> []" and "\<not> isspace food_item"
  shows "body e s =
     submit e (query1 food_item) (\<lambda>response.
         andthen (py_print ''Ingredients: '') (\<lambda>_.
         andthen (response_text response) (\<lambda>text.
         py_print text)))
       (s\<lparr>stdin := rest, console := console s @ menu_events @
          [Prompt (use_last_prompt ''food item'' food_item)]\<rparr>)"
  using assms by (simp add: body_dispatch option1_def ask_item_def truthy_def cmd_defs)

lemma reuse1_sent:
  assumes "stdin s = Line ''1'' # Line answer # rest" and "lower answer = ''yes''"
    and "last_food_item s = Some food_item" and "food_item \<noteq> []" and "\<not> isspace food_item"
  shows "chat (snd (turn e s)) = chat s @ [TextMsg (query1 food_item)]"
  unfolding snd_turn reuse1_body [OF assms]
  by (simp add: submit_chat shown_keeps)

text \<open>
  C7. When \<open>last_food_item\<close> holds a name (such as \<open>pizza\<close>: not empty, not all
  whitespace), the user chooses option 1 and answers the reuse question with a spelling
  of \<open>yes\<close>, the query sent is the ingredients question of line 135 with that stored
  name in it, no further key is read, and the only prompts of the iteration are the menu
  choice and the reuse question.
\<close>

theorem reuse_builds_query_from_last_food_item:
  assumes "stdin s = Line ''1'' # Line answer # rest" and "lower answer = ''yes''"
    and "last_food_item s = Some food_item" and "food_item \<noteq> []" and "\<not> isspace food_item"
  shows "chat (snd (turn e s)) =
       chat s @ [TextMsg (''What are the detailed and specific ingredients of '' @ food_item
          @ ''? Include any sub-ingredients and specific types of ingredients used.'')]
     \<and> chat (snd (turn e s)) = chat s @ [TextMsg (query1 food_item)]
     \<and> stdin (snd (turn e s)) = rest
     \<and> prompts (console (snd (turn e s))) =
         prompts (console s) @ [''Choose an option (1, 2, or 3): '', use_last_prompt ''food item'' food_item]"
proof -
  have sent: "chat (snd (turn e s)) = chat s @ [TextMsg (query1 food_item)]"
    using assms by (rule reuse1_sent)
  have "keeps stdin (submit e (query1 food_item) (\<lambda>response.
         andthen (py_print ''Ingredients: '') (\<lambda>_.
         andthen (response_text response) (\<lambda>text.
         py_print text))))"
    by (intro keeps_submit shown_keeps) simp_all
  then have keys: "stdin (snd (turn e s)) = rest"
    unfolding snd_turn reuse1_body [OF assms] by (simp add: keeps_def)
  have asked: "prompts (console (snd (turn e s))) =
         prompts (console s) @ [''Choose an option (1, 2, or 3): '', use_last_prompt ''food item'' food_item]"
    unfolding snd_turn reuse1_body [OF assms]
    by (simp add: submit_prompts shown_prompts prompts_append prompts_menu)
  from sent keys asked show ?thesis by (simp add: query1_def)
qed

lemma lower_YES: "lower ''YES'' = ''yes''"
  by code_simp

lemma pizza_not_space: "\<not> isspace ''pizza''"
  by code_simp

theorem reuse_builds_query_from_last_food_item_witness:
  "chat (snd (turn kitchen ((power_on [Line ''1'', Line ''YES''])\<lparr>last_food_item := Some ''pizza''\<rparr>))) =
     [TextMsg ''What are the detailed and specific ingredients of pizza? Include any sub-ingredients and specific types of ingredients used.'']
   \<and> stdin (snd (turn kitchen ((power_on [Line ''1'', Line ''YES''])\<lparr>last_food_item := Some ''pizza''\<rparr>))) = []"
  using reuse_builds_query_from_last_food_item
      [where s = "(power_on [Line ''1'', Line ''YES''])\<lparr>last_food_item := Some ''pizza''\<rparr>"
         and answer = "''YES''" and rest = "[]" and food_item = "''pizza''" and e = kitchen]
    lower_YES pizza_not_space
  by (simp add: power_on_def)

lemmas run_simps = turn_def body_dispatch option1_def option2_def option3_def ask_item_def cmd_defs

lemma reject1_fresh:
  assumes "name = [] \<or> isspace name" "\<not> truthy (last_food_item s)"
    "stdin s = Line ''1'' # Line name # rest"
  shows "turn e s = (Continue, s\<lparr>stdin := rest, console := console s @ menu_events @
     [Prompt ''Enter a food to get its ingredients: '', Print empty_food_msg]\<rparr>)"
  using assms by (auto simp add: run_simps)

lemma reject1_declined:
  assumes "name = [] \<or> isspace name" "truthy (last_food_item s)" "lower answer \<noteq> ''yes''"
    "stdin s = Line ''1'' # Line answer # Line name # rest"
  shows "turn e s = (Continue, s\<lparr>stdin := rest, console := console s @ menu_events @
     [Prompt (use_last_prompt ''food item'' (the (last_food_item s))),
      Prompt ''Enter a food to get its ingredients: '', Print empty_food_msg]\<rparr>)"
  using assms by (auto simp add: run_simps)

lemma reject3:
  assumes "name = [] \<or> isspace name"
    "stdin s = Line ''3'' # Line name # Line description # Line image_path # rest"
  shows "turn e s = (Continue, s\<lparr>stdin := rest, console := console s @ menu_events @
     [Prompt ''Enter the name of the food item: '',
      Prompt ''Enter a description of the food item: '',
      Prompt ''Enter the local path of the food item image (optional): '',
      Print empty_food_msg]\<rparr>)"
  using assms by (auto simp add: run_simps)

lemma reject2_fresh:
  assumes "dish = [] \<or> isspace dish \<or> ingredient = [] \<or> isspace ingredient"
    "\<not> truthy (last_food_item s)"
    "stdin s = Line ''2'' # Line dish # Line ingredient # rest"
  shows "turn e s = (Continue, s\<lparr>stdin := rest, console := console s @ menu_events @
     [Prompt ''Enter the name of the dish: '', Prompt ''Enter the ingredient to check: '',
      Print empty_dish_msg]\<rparr>)"
  using assms by (auto simp add: run_simps)

lemma reject2_declined:
  assumes "dish = [] \<or> isspace dish \<or> ingredient = [] \<or> isspace ingredient"
    "truthy (last_food_item s)" "lower answer \<noteq> ''yes''"
    "stdin s = Line ''2'' # Line answer # Line dish # Line ingredient # rest"
  shows "turn e s = (Continue, s\<lparr>stdin := rest, console := console s @ menu_events @
     [Prompt (use_last_prompt ''dish'' (the (last_food_item s))),
      Prompt ''Enter the name of the dish: '', Prompt ''Enter the ingredient to check: '',
      Print empty_dish_msg]\<rparr>)"
  using assms by (auto simp add: run_simps)

lemma reject2_reused:
  assumes "ingredient = [] \<or> isspace ingredient"
    "truthy (last_food_item s)" "lower answer = ''yes''"
    "stdin s = Line ''2'' # Line answer # Line ingredient # rest"
  shows "turn e s = (Continue, s\<lparr>stdin := rest, console := console s @ menu_events @
     [Prompt (use_last_prompt ''dish'' (the (last_food_item s))),
      Prompt ''Enter the ingredient to check: '',
      Print empty_dish_msg]\<rparr>)"
  using assms by (auto simp add: run_simps)

text \<open>
  C3. In every shape of an iteration in which the user types a name (the food of option 1
  or 3, the dish or the ingredient of option 2), a name that is empty or all whitespace
  ends the iteration with the rejection message as the last thing written; the loop
  continues, all typed keys of the iteration are consumed, and nothing was sent: the chat,
  the image chats and the number of sessions are as before.
\<close>

theorem blank_input_is_rejected:
  assumes blank: "name = [] \<or> isspace name"
    and shape:
     "(\<not> truthy (last_food_item s) \<and> stdin s = Line ''1'' # Line name # rest)
    \<or> (truthy (last_food_item s) \<and> lower answer \<noteq> ''yes''
         \<and> stdin s = Line ''1'' # Line answer # Line name # rest)
    \<or> stdin s = Line ''3'' # Line name # Line description # Line image_path # rest
    \<or> (\<not> truthy (last_food_item s)
         \<and> (stdin s = Line ''2'' # Line name # Line other # rest
            \<or> stdin s = Line ''2'' # Line other # Line name # rest))
    \<or> (truthy (last_food_item s) \<and> lower answer \<noteq> ''yes''
         \<and> (stdin s = Line ''2'' # Line answer # Line name # Line other # rest
            \<or> stdin s = Line ''2'' # Line answer # Line other # Line name # rest))
    \<or> (truthy (last_food_item s) \<and> lower answer = ''yes''
         \<and> stdin s = Line ''2'' # Line answer # Line name # rest)"
  shows "fst (turn e s) = Continue
     \<and> stdin (snd (turn e s)) = rest
     \<and> chat (snd (turn e s)) = chat s
     \<and> image_chats (snd (turn e s)) = image_chats s
     \<and> sessions (snd (turn e s)) = sessions s
     \<and> (last (console (snd (turn e s))) = Print empty_food_msg
        \<or> last (console (snd (turn e s))) = Print empty_dish_msg)"
proof -
  consider
    (a) "\<not> truthy (last_food_item s)" "stdin s = Line ''1'' # Line name # rest"
  | (b) "truthy (last_food_item s)" "lower answer \<noteq> ''yes''"
        "stdin s = Line ''1'' # Line answer # Line name # rest"
  | (c) "stdin s = Line ''3'' # Line name # Line description # Line image_path # rest"
  | (d) "\<not> truthy (last_food_item s)" "stdin s = Line ''2'' # Line name # Line other # rest"
  | (e) "\<not> truthy (last_food_item s)" "stdin s = Line ''2'' # Line other # Line name # rest"
  | (f) "truthy (last_food_item s)" "lower answer \<noteq> ''yes''"
        "stdin s = Line ''2'' # Line answer # Line name # Line other # rest"
  | (g) "truthy (last_food_item s)" "lower answer \<noteq> ''yes''"
        "stdin s = Line ''2'' # Line answer # Line other # Line name # rest"
  | (h) "truthy (last_food_item s)" "lower answer = ''yes''"
        "stdin s = Line ''2'' # Line answer # Line name # rest"
    using shape by blast
  then show ?thesis
  proof cases
    case a
    from reject1_fresh [OF blank a, of e] show ?thesis by (simp add: menu_events_def)
  next
    case b
    from reject1_declined [OF blank b, of e] show ?thesis by (simp add: menu_events_def)
  next
    case c
    from reject3 [OF blank c, of e] show ?thesis by (simp add: menu_events_def)
  next
    case d
    from blank have "name = [] \<or> isspace name \<or> other = [] \<or> isspace other" by blast
    from reject2_fresh [OF this d, of e] show ?thesis by (simp add: menu_events_def)
  next
    case e
    from blank have "other = [] \<or> isspace other \<or> name = [] \<or> isspace name" by blast
    from reject2_fresh [OF this e, of e] show ?thesis by (simp add: menu_events_def)
  next
    case f
    from blank have "name = [] \<or> isspace name \<or> other = [] \<or> isspace other" by blast
    from reject2_declined [OF this f, of e] show ?thesis by (simp add: menu_events_def)
  next
    case g
    from blank have "other = [] \<or> isspace other \<or> name = [] \<or> isspace name" by blast
    from reject2_declined [OF this g, of e] show ?thesis by (simp add: menu_events_def)
  next
    case h
    from reject2_reused [OF blank h, of e] show ?thesis by (simp add: menu_events_def)
  qed
qed


lemma space_is_space: "isspace '' ''"
  by code_simp

theorem blank_input_is_rejected_witness:
  "fst (turn kitchen (power_on [Line ''3'', Line '' '', Line ''round'', Line ''pizza.png''])) = Continue
   \<and> chat (snd (turn kitchen (power_on [Line ''3'', Line '' '', Line ''round'', Line ''pizza.png'']))) = []
   \<and> image_chats (snd (turn kitchen (power_on [Line ''3'', Line '' '', Line ''round'', Line ''pizza.png'']))) = []"
  using blank_input_is_rejected
      [where s = "power_on [Line ''3'', Line '' '', Line ''round'', Line ''pizza.png'']"
         and name = "'' ''" and description = "''round''" and image_path = "''pizza.png''"
         and rest = "[]" and e = kitchen]
    space_is_space
  by (simp add: power_on_def)

lemma analyze_FileNotFound:
  "open_image e p = FileNotFound \<Longrightarrow>
   analyze_image_with_gemini e p s =
     (Val None, s\<lparr>console := console s @ [Print ''Error: The specified image file could not be found.'']\<rparr>)"
  by (simp add: analyze_image_with_gemini_def cmd_defs)

lemma analyze_OSError:
  "open_image e p = OSError why \<Longrightarrow>
   analyze_image_with_gemini e p s =
     (Val None, s\<lparr>console := console s @
        [Print (''Error: An unexpected error occurred while analyzing the image: '' @ why)]\<rparr>)"
  by (simp add: analyze_image_with_gemini_def image_failed_def cmd_defs)

lemma analyze_Bytes:
  "open_image e p = Bytes b \<Longrightarrow>
   analyze_image_with_gemini e p s =
     (Val None, s\<lparr>console := console s @
        [Print (''Error: An unexpected error occurred while analyzing the image: '' @ keyword_error e)],
        sessions := sessions s + 1,
        image_chats := image_chats s @ [[]]\<rparr>)"
  by (simp add: analyze_image_with_gemini_def image_failed_def start_image_chat_def cmd_defs)

lemma analyze_returns_None:
  "fst (analyze_image_with_gemini e p s) = Val None
   \<and> (\<exists>m. console (snd (analyze_image_with_gemini e p s)) = console s @ [Print m])"
  by (cases "open_image e p") (simp_all add: analyze_FileNotFound analyze_OSError analyze_Bytes)

lemma describe_same: "fst (describe e description p s) = Val description"
proof (cases "p = []")
  case True
  then show ?thesis by (simp add: describe_def ret_def)
next
  case False
  obtain s1 where "analyze_image_with_gemini e p s = (Val None, s1)"
    using analyze_returns_None [of e p s] by (cases "analyze_image_with_gemini e p s") auto
  with False show ?thesis by (simp add: describe_def andthen_def ret_def truthy_def)
qed

lemma describe_fields:
  "chat (snd (describe e d p s)) = chat s"
  "stdin (snd (describe e d p s)) = stdin s"
  "last_food_item (snd (describe e d p s)) = last_food_item s"
  "last_dish_description (snd (describe e d p s)) = last_dish_description s"
  using keeps_describe [of chat e d p] keeps_describe [of stdin e d p]
    keeps_describe [of last_food_item e d p] keeps_describe [of last_dish_description e d p]
  by (simp_all add: keeps_def start_image_chat_def)

lemma option3_inputs:
  assumes "stdin s = Line ''3'' # Line food_item # Line description # Line image_path # rest"
    and "food_item \<noteq> []" "\<not> isspace food_item"
  shows "body e s =
     andthen (describe e description image_path) (\<lambda>description.
       submit e (query3 food_item description) (\<lambda>response.
         andthen (py_print ''Analysis: '') (\<lambda>_.
         andthen (response_text response) (\<lambda>text.
         andthen (py_print text) (\<lambda>_.
         remember food_item description)))))
       (s\<lparr>stdin := rest, console := console s @ menu_events @
          [Prompt ''Enter the name of the food item: '',
           Prompt ''Enter a description of the food item: '',
           Prompt ''Enter the local path of the food item image (optional): '']\<rparr>)"
  using assms by (simp add: body_dispatch option3_def cmd_defs)

lemma option3_described:
  assumes "stdin s = Line ''3'' # Line food_item # Line description # Line image_path # rest"
    and "food_item \<noteq> []" "\<not> isspace food_item"
  shows "\<exists>s2. chat s2 = chat s \<and> last_food_item s2 = last_food_item s
      \<and> last_dish_description s2 = last_dish_description s \<and> stdin s2 = rest
      \<and> body e s =
          submit e (query3 food_item description) (\<lambda>response.
            andthen (py_print ''Analysis: '') (\<lambda>_.
            andthen (response_text response) (\<lambda>text.
            andthen (py_print text) (\<lambda>_.
            remember food_item description)))) s2"
proof -
  define s1 where "s1 = s\<lparr>stdin := rest, console := console s @ menu_events @
          [Prompt ''Enter the name of the food item: '',
           Prompt ''Enter a description of the food item: '',
           Prompt ''Enter the local path of the food item image (optional): '']\<rparr>"
  define s2 where "s2 = snd (describe e description image_path s1)"
  have ds: "describe e description image_path s1 = (Val description, s2)"
    using describe_same [of e description image_path s1] by (simp add: s2_def prod_eq_iff)
  have "chat s2 = chat s" "last_food_item s2 = last_food_item s"
    "last_dish_description s2 = last_dish_description s" "stdin s2 = rest"
    by (simp_all add: s2_def describe_fields s1_def)
  moreover have "body e s =
          submit e (query3 food_item description) (\<lambda>response.
            andthen (py_print ''Analysis: '') (\<lambda>_.
            andthen (response_text response) (\<lambda>text.
            andthen (py_print text) (\<lambda>_.
            remember food_item description)))) s2"
    unfolding option3_inputs [OF assms] s1_def [symmetric]
    by (simp add: andthen_def [of "describe e description image_path"] ds)
  ultimately show ?thesis by blast
qed

lemma analysed_keeps_chat:
  "keeps chat (andthen (py_print headline) (\<lambda>_.
      andthen (response_text r) (\<lambda>text.
      andthen (py_print text) (\<lambda>_.
      remember food_item description))))"
  by (intro keeps_andthen keeps_print keeps_response_text) (simp_all add: keeps_def remember_def)

lemma analysed_result:
  "andthen (py_print headline) (\<lambda>_.
      andthen (response_text r) (\<lambda>text.
      andthen (py_print text) (\<lambda>_.
      remember food_item description))) s =
   (case r of
      Text t \<Rightarrow> (Val (), s\<lparr>console := console s @ [Print headline, Print t],
                    last_food_item := Some food_item, last_dish_description := Some description\<rparr>)
    | NoText \<Rightarrow> (Stop (Raised ValueError), s\<lparr>console := console s @ [Print headline]\<rparr>))"
  by (cases r) (simp_all add: cmd_defs remember_def)

lemma option3_sent:
  assumes "stdin s = Line ''3'' # Line food_item # Line description # Line image_path # rest"
    and "food_item \<noteq> []" "\<not> isspace food_item"
  shows "chat (snd (turn e s)) = chat s @ [TextMsg (query3 food_item description)]"
proof -
  obtain s2 where s2: "chat s2 = chat s"
    and b: "body e s =
          submit e (query3 food_item description) (\<lambda>response.
            andthen (py_print ''Analysis: '') (\<lambda>_.
            andthen (response_text response) (\<lambda>text.
            andthen (py_print text) (\<lambda>_.
            remember food_item description)))) s2"
    using option3_described [OF assms, of e] by blast
  show ?thesis
    unfolding snd_turn b by (simp add: submit_chat analysed_keeps_chat s2)
qed

lemma option3_outcome:
  assumes "stdin s = Line ''3'' # Line food_item # Line description # Line image_path # rest"
    and "food_item \<noteq> []" "\<not> isspace food_item"
  shows "last_food_item (snd (turn e s)) =
         (case chat_reply e (length (chat s)) of
            Returns r \<Rightarrow> (case r of Text t \<Rightarrow> Some food_item | NoText \<Rightarrow> last_food_item s)
          | Raise k why \<Rightarrow> last_food_item s)
     \<and> fst (turn e s) =
         (case chat_reply e (length (chat s)) of
            Returns r \<Rightarrow> (case r of Text t \<Rightarrow> Continue | NoText \<Rightarrow> Raised ValueError)
          | Raise k why \<Rightarrow>
              (case k of DeadlineExceeded \<Rightarrow> Continue
                       | OtherError \<Rightarrow> Raised (ApiError OtherError why)
                       | _ \<Rightarrow> Exit 1))"
proof -
  obtain s2 where s2: "chat s2 = chat s" "last_food_item s2 = last_food_item s"
    and b: "body e s =
          submit e (query3 food_item description) (\<lambda>response.
            andthen (py_print ''Analysis: '') (\<lambda>_.
            andthen (response_text response) (\<lambda>text.
            andthen (py_print text) (\<lambda>_.
            remember food_item description)))) s2"
    using option3_described [OF assms, of e] by blast
  show ?thesis
  proof (cases "chat_reply e (length (chat s))")
    case (Returns r)
    then have r: "chat_reply e (length (chat s2)) = Returns r" by (simp add: s2)
    show ?thesis
      using Returns by (cases r) (simp_all add: turn_def b submit_Returns [OF r] analysed_result s2)
  next
    case (Raise k why)
    then have r: "chat_reply e (length (chat s2)) = Raise k why" by (simp add: s2)
    obtain s3 where h: "api_handlers k why (s2\<lparr>chat := chat s2 @ [TextMsg (query3 food_item description)]\<rparr>) =
        (Stop (case k of DeadlineExceeded \<Rightarrow> Continue
                       | OtherError \<Rightarrow> Raised (ApiError OtherError why)
                       | _ \<Rightarrow> Exit 1), s3)" and "last_food_item s3 = last_food_item s2"
      using handlers_control [of k why "s2\<lparr>chat := chat s2 @ [TextMsg (query3 food_item description)]\<rparr>"]
        handlers_memory(1) [of k why "s2\<lparr>chat := chat s2 @ [TextMsg (query3 food_item description)]\<rparr>"]
      by (cases "api_handlers k why (s2\<lparr>chat := chat s2 @ [TextMsg (query3 food_item description)]\<rparr>)") auto
    then show ?thesis
      using Raise by (simp add: turn_def b submit_Raise [OF r] s2)
  qed
qed

text \<open>
  C1, as the code has it. An iteration of option 3 with an acceptable food name sends one
  analysis query on the main chat. If that call returns a response that carries text,
  \<open>last_food_item\<close> becomes exactly the typed food name; if the call raises, whatever the
  kind of exception, \<open>last_food_item\<close> is what it was before the iteration.
\<close>

theorem analysis_sets_last_food_item_on_text_only:
  assumes "stdin s = Line ''3'' # Line food_item # Line description # Line image_path # rest"
    and "food_item \<noteq> []" and "\<not> isspace food_item"
  shows "chat (snd (turn e s)) = chat s @ [TextMsg (query3 food_item description)]
     \<and> (\<forall>t. chat_reply e (length (chat s)) = Returns (Text t) \<longrightarrow>
            last_food_item (snd (turn e s)) = Some food_item)
     \<and> (\<forall>k why. chat_reply e (length (chat s)) = Raise k why \<longrightarrow>
            last_food_item (snd (turn e s)) = last_food_item s)"
  using option3_sent [OF assms, of e] option3_outcome [OF assms, of e] by simp

theorem analysis_sets_last_food_item_on_text_only_witness:
  "last_food_item (snd (turn kitchen (power_on [Line ''3'', Line ''pizza'', Line ''round'', Line []]))) =
     Some ''pizza''
   \<and> last_food_item (snd (turn kitchen
        ((power_on [Line ''3'', Line ''pizza'', Line ''round'', Line []])\<lparr>chat := [TextMsg ''hello'']\<rparr>))) =
     None"
  using analysis_sets_last_food_item_on_text_only
      [where s = "power_on [Line ''3'', Line ''pizza'', Line ''round'', Line []]"
         and food_item = "''pizza''" and description = "''round''" and image_path = "[]"
         and rest = "[]" and e = kitchen]
    analysis_sets_last_food_item_on_text_only
      [where s = "(power_on [Line ''3'', Line ''pizza'', Line ''round'', Line []])\<lparr>chat := [TextMsg ''hello'']\<rparr>"
         and food_item = "''pizza''" and description = "''round''" and image_path = "[]"
         and rest = "[]" and e = kitchen]
    pizza_not_space
  by (simp add: power_on_def kitchen_def)

text \<open>
  C1 as stated fails when the call returns a response without text: the call has then
  completed without raising, line 255 raises \<^verbatim>\<open>ValueError\<close> on \<^verbatim>\<open>response.text\<close>, and
  the assignment of line 256 is not reached. Here the script has sent its analysis query
  for \<open>pizza\<close>, the reply is such a response, and \<open>last_food_item\<close> is still unset.
\<close>

theorem textless_response_leaves_last_food_item_counterexample:
  "chat_reply (kitchen\<lparr>chat_reply := \<lambda>n. Returns NoText\<rparr>) 0 = Returns NoText
   \<and> chat (snd (script (kitchen\<lparr>chat_reply := \<lambda>n. Returns NoText\<rparr>) 1
        [Line ''3'', Line ''pizza'', Line ''round'', Line []])) = [TextMsg (query3 ''pizza'' ''round'')]
   \<and> last_food_item (snd (script (kitchen\<lparr>chat_reply := \<lambda>n. Returns NoText\<rparr>) 1
        [Line ''3'', Line ''pizza'', Line ''round'', Line []])) = None
   \<and> fst (script (kitchen\<lparr>chat_reply := \<lambda>n. Returns NoText\<rparr>) 1
        [Line ''3'', Line ''pizza'', Line ''round'', Line []]) = Raised ValueError"
  by code_simp

text \<open>
  C4. In an iteration of option 3 with an accepted food name and a non-empty image path,
  the image analysis fails in every case: the file is missing, or it cannot be read, or
  it is read and the request call of lines 91-94 raises. Each time the image analysis
  returns \<^verbatim>\<open>None\<close> after printing one message, in whatever state it is called; the
  analysis query is then sent with the description exactly as typed, and how the
  iteration ends is decided by the reply to that query alone.
\<close>

theorem image_failure_stays_local:
  assumes inputs: "stdin s = Line ''3'' # Line food_item # Line description # Line image_path # rest"
    and name: "food_item \<noteq> []" "\<not> isspace food_item"
    and path: "image_path \<noteq> []"
  shows "fst (analyze_image_with_gemini e image_path at_call) = Val None
     \<and> (\<exists>m. console (snd (analyze_image_with_gemini e image_path at_call)) = console at_call @ [Print m])
     \<and> chat (snd (turn e s)) = chat s @ [TextMsg (query3 food_item description)]
     \<and> fst (turn e s) =
         (case chat_reply e (length (chat s)) of
            Returns r \<Rightarrow> (case r of Text t \<Rightarrow> Continue | NoText \<Rightarrow> Raised ValueError)
          | Raise k why \<Rightarrow>
              (case k of DeadlineExceeded \<Rightarrow> Continue
                       | OtherError \<Rightarrow> Raised (ApiError OtherError why)
                       | _ \<Rightarrow> Exit 1))"
  using analyze_returns_None [of e image_path at_call]
    option3_sent [OF inputs name, of e] option3_outcome [OF inputs name, of e]
  by simp

theorem image_failure_stays_local_witness:
  "chat (snd (turn kitchen (power_on [Line ''3'', Line ''pizza'', Line ''round'', Line ''pizza.png'']))) =
     [TextMsg (query3 ''pizza'' ''round'')]
   \<and> fst (turn kitchen (power_on [Line ''3'', Line ''pizza'', Line ''round'', Line ''pizza.png''])) = Continue
   \<and> chat (snd (turn kitchen (power_on [Line ''3'', Line ''pizza'', Line ''round'', Line ''nowhere.png'']))) =
     [TextMsg (query3 ''pizza'' ''round'')]"
  using image_failure_stays_local
      [where s = "power_on [Line ''3'', Line ''pizza'', Line ''round'', Line ''pizza.png'']"
         and food_item = "''pizza''" and description = "''round''" and image_path = "''pizza.png''"
         and rest = "[]" and e = kitchen]
    image_failure_stays_local
      [where s = "power_on [Line ''3'', Line ''pizza'', Line ''round'', Line ''nowhere.png'']"
         and food_item = "''pizza''" and description = "''round''" and image_path = "''nowhere.png''"
         and rest = "[]" and e = kitchen]
    pizza_not_space
  by (simp add: power_on_def kitchen_def)

section \<open>Exceptions of the service\<close>

lemma handled_quiet: "keeps chat m \<Longrightarrow> handled e m"
  by (simp add: handled_def keeps_def)

lemma handled_if: "handled e a \<Longrightarrow> handled e b \<Longrightarrow> handled e (if c then a else b)"
  by simp

lemma handled_andthen:
  assumes m: "keeps chat m" and g: "\<And>x. handled e (g x)"
  shows "handled e (andthen m g)"
  unfolding handled_def
proof
  fix s
  obtain r s1 where ms: "m s = (r, s1)" by (cases "m s")
  from m have "chat (snd (m s)) = chat s" unfolding keeps_def by (rule spec)
  with ms have c1: "chat s1 = chat s" by simp
  show "chat (snd (andthen m g s)) = chat s
        \<or> (\<exists>q. chat (snd (andthen m g s)) = chat s @ [TextMsg q])
          \<and> (case chat_reply e (length (chat s)) of
                Returns r \<Rightarrow>
                  (case r of Text t \<Rightarrow> fst (andthen m g s) = Val ()
                           | NoText \<Rightarrow> fst (andthen m g s) = Stop (Raised ValueError))
              | Raise k why \<Rightarrow> fst (andthen m g s) = fst (api_handlers k why s))"
  proof (cases r)
    case (Stop c)
    with ms c1 show ?thesis by (simp add: andthen_def)
  next
    case (Val x)
    with ms have a: "andthen m g s = g x s1" by (simp add: andthen_def)
    from g [of x] have "chat (snd (g x s1)) = chat s1
        \<or> (\<exists>q. chat (snd (g x s1)) = chat s1 @ [TextMsg q])
          \<and> (case chat_reply e (length (chat s1)) of
                Returns r \<Rightarrow>
                  (case r of Text t \<Rightarrow> fst (g x s1) = Val ()
                           | NoText \<Rightarrow> fst (g x s1) = Stop (Raised ValueError))
              | Raise k why \<Rightarrow> fst (g x s1) = fst (api_handlers k why s1))"
      unfolding handled_def by (rule spec)
    then show ?thesis
      unfolding a c1 by (simp add: handlers_control split: reply.splits)
  qed
qed

lemma handled_submit:
  assumes "\<And>r. keeps chat (on_response r)"
    and "\<And>r s. fst (on_response r s) = (case r of Text t \<Rightarrow> Val () | NoText \<Rightarrow> Stop (Raised ValueError))"
  shows "handled e (submit e q on_response)"
  unfolding handled_def
proof
  fix s
  have sent: "chat (snd (submit e q on_response s)) = chat s @ [TextMsg q]"
    using assms(1) by (rule submit_chat)
  show "chat (snd (submit e q on_response s)) = chat s
        \<or> (\<exists>q'. chat (snd (submit e q on_response s)) = chat s @ [TextMsg q'])
          \<and> (case chat_reply e (length (chat s)) of
                Returns r \<Rightarrow>
                  (case r of Text t \<Rightarrow> fst (submit e q on_response s) = Val ()
                           | NoText \<Rightarrow> fst (submit e q on_response s) = Stop (Raised ValueError))
              | Raise k why \<Rightarrow> fst (submit e q on_response s) = fst (api_handlers k why s))"
  proof (cases "chat_reply e (length (chat s))")
    case (Returns r)
    then show ?thesis
      using sent by (cases r) (simp_all add: submit_Returns assms(2))
  next
    case (Raise k why)
    then show ?thesis
      using sent by (simp add: submit_Raise handlers_control)
  qed
qed

lemma handled_option1: "handled e (option1 e)"
  unfolding option1_def
  apply (rule handled_andthen)
   apply (intro keeps_ask_item; simp)
  apply (rule handled_if)
   apply (rule handled_quiet, intro keeps_andthen keeps_print keeps_stop; simp)
  apply (rule handled_submit)
   apply (rule shown_keeps, simp)
  apply (rule shown_control)
  done

lemma handled_option2: "handled e (option2 e)"
  unfolding option2_def
  apply (rule handled_andthen)
   apply (intro keeps_ask_item; simp)
  apply (rule handled_andthen)
   apply (intro keeps_input; simp)
  apply (rule handled_if)
   apply (rule handled_quiet, intro keeps_andthen keeps_print keeps_stop; simp)
  apply (rule handled_submit)
   apply (rule shown_keeps, simp)
  apply (rule shown_control)
  done

lemma keeps_chat_start_image_chat: "keeps chat start_image_chat"
  by (simp add: keeps_def start_image_chat_def)

lemma handled_option3: "handled e (option3 e)"
  unfolding option3_def
  apply (rule handled_andthen, (intro keeps_input; simp))+
  apply (rule handled_if)
   apply (rule handled_quiet, intro keeps_andthen keeps_print keeps_stop; simp)
  apply (rule handled_andthen)
   apply (intro keeps_describe keeps_chat_start_image_chat; simp)
  apply (rule handled_submit)
   apply (rule analysed_keeps_chat)
  apply (simp add: analysed_result split: response.splits)
  done

lemma handled_body: "handled e (body e)"
  unfolding body_def
  apply (rule handled_andthen)
   apply (intro keeps_menu; simp)
  apply (rule handled_andthen)
   apply (intro keeps_input; simp)
  apply (intro handled_if handled_option1 handled_option2 handled_option3)
  apply (rule handled_quiet, intro keeps_print; simp)
  done


text \<open>
  C2. Whenever an iteration submits a query to the service (in option 1, 2 or 3; the
  image analysis submits none) and that call raises: a deadline-exceeded exception gives
  \<open>Continue\<close>, so the loop goes on and the process has no exit status; every other kind
  ends the process with status 1, and for invalid argument, permission denied, not found,
  resource exhausted, unknown and service unavailable it is \<^verbatim>\<open>sys.exit(1)\<close> that does.
\<close>

theorem remote_exception_verdict:
  assumes sent: "chat (snd (turn e s)) \<noteq> chat s"
    and raised: "chat_reply e (length (chat s)) = Raise k why"
  shows "(\<exists>q. chat (snd (turn e s)) = chat s @ [TextMsg q])
     \<and> (k = DeadlineExceeded \<longrightarrow>
          fst (turn e s) = Continue \<and> exit_status (fst (turn e s)) = None)
     \<and> (k \<noteq> DeadlineExceeded \<longrightarrow> exit_status (fst (turn e s)) = Some 1)
     \<and> (k \<in> {InvalidArgument, PermissionDenied, NotFound, ResourceExhausted, Unknown, ServiceUnavailable}
          \<longrightarrow> fst (turn e s) = Exit 1)"
proof -
  from handled_body [of e]
  have "chat (snd (body e s)) = chat s
        \<or> (\<exists>q. chat (snd (body e s)) = chat s @ [TextMsg q])
          \<and> (case chat_reply e (length (chat s)) of
                Returns r \<Rightarrow>
                  (case r of Text t \<Rightarrow> fst (body e s) = Val ()
                           | NoText \<Rightarrow> fst (body e s) = Stop (Raised ValueError))
              | Raise k why \<Rightarrow> fst (body e s) = fst (api_handlers k why s))"
    unfolding handled_def by (rule spec)
  with sent raised
  have q: "\<exists>q. chat (snd (body e s)) = chat s @ [TextMsg q]"
    and c: "fst (body e s) = fst (api_handlers k why s)"
    by (simp_all add: snd_turn)
  from c have "fst (turn e s) = (case k of DeadlineExceeded \<Rightarrow> Continue
                   | OtherError \<Rightarrow> Raised (ApiError OtherError why)
                   | _ \<Rightarrow> Exit 1)"
    by (cases "body e s") (simp add: turn_def handlers_control)
  then show ?thesis
    using q by (cases k) (simp_all add: snd_turn exit_status_def)
qed

theorem remote_exception_verdict_witness:
  "fst (turn kitchen ((power_on [Line ''1'', Line ''soup''])\<lparr>chat := [TextMsg ''hello'']\<rparr>)) = Continue
   \<and> fst (turn (kitchen\<lparr>chat_reply := \<lambda>n. Raise NotFound ''404''\<rparr>)
          (power_on [Line ''2'', Line ''soup'', Line ''salt''])) = Exit 1
   \<and> exit_status (fst (turn (kitchen\<lparr>chat_reply := \<lambda>n. Raise OtherError ''500''\<rparr>)
          (power_on [Line ''3'', Line ''soup'', Line ''hot'', Line []]))) = Some 1"
proof -
  have a: "chat (snd (turn kitchen ((power_on [Line ''1'', Line ''soup''])\<lparr>chat := [TextMsg ''hello'']\<rparr>)))
      \<noteq> chat ((power_on [Line ''1'', Line ''soup''])\<lparr>chat := [TextMsg ''hello'']\<rparr>)"
    by code_simp
  have b: "chat_reply kitchen (length (chat ((power_on [Line ''1'', Line ''soup''])\<lparr>chat := [TextMsg ''hello'']\<rparr>)))
      = Raise DeadlineExceeded ''504''"
    by code_simp
  have c: "chat (snd (turn (kitchen\<lparr>chat_reply := \<lambda>n. Raise NotFound ''404''\<rparr>)
          (power_on [Line ''2'', Line ''soup'', Line ''salt''])))
      \<noteq> chat (power_on [Line ''2'', Line ''soup'', Line ''salt''])"
    by code_simp
  have d: "chat_reply (kitchen\<lparr>chat_reply := \<lambda>n. Raise NotFound ''404''\<rparr>)
        (length (chat (power_on [Line ''2'', Line ''soup'', Line ''salt'']))) = Raise NotFound ''404''"
    by simp
  have f: "chat (snd (turn (kitchen\<lparr>chat_reply := \<lambda>n. Raise OtherError ''500''\<rparr>)
          (power_on [Line ''3'', Line ''soup'', Line ''hot'', Line []])))
      \<noteq> chat (power_on [Line ''3'', Line ''soup'', Line ''hot'', Line []])"
    by code_simp
  have g: "chat_reply (kitchen\<lparr>chat_reply := \<lambda>n. Raise OtherError ''500''\<rparr>)
        (length (chat (power_on [Line ''3'', Line ''soup'', Line ''hot'', Line []]))) = Raise OtherError ''500''"
    by simp
  from remote_exception_verdict [OF a b] remote_exception_verdict [OF c d]
    remote_exception_verdict [OF f g]
  show ?thesis by simp
qed

section \<open>The whole run\<close>

lemma pres_andthen: "pres P m \<Longrightarrow> (\<And>x. pres P (g x)) \<Longrightarrow> pres P (andthen m g)"
  unfolding pres_def andthen_def
proof (intro allI impI)
  fix s
  assume m: "\<forall>s. P s \<longrightarrow> P (snd (m s))" and g: "\<And>x. \<forall>s. P s \<longrightarrow> P (snd (g x s))" and s: "P s"
  obtain r s1 where ms: "m s = (r, s1)" by (cases "m s")
  from m s ms have "P s1" by (metis snd_conv)
  with g ms show "P (snd (case m s of (Val x, s1) \<Rightarrow> g x s1 | (Stop c, s1) \<Rightarrow> (Stop c, s1)))"
    by (cases r) simp_all
qed

lemma pres_if: "(c \<Longrightarrow> pres P a) \<Longrightarrow> (\<not> c \<Longrightarrow> pres P b) \<Longrightarrow> pres P (if c then a else b)"
  by simp

lemma sound_keeps: "keeps last_food_item m \<Longrightarrow> pres sound_memory m"
  by (simp add: keeps_def pres_def sound_memory_def)

lemma sound_remember: "food_item \<noteq> [] \<Longrightarrow> \<not> isspace food_item \<Longrightarrow> pres sound_memory (remember food_item d)"
  by (simp add: pres_def remember_def sound_memory_def)

lemma sound_submit:
  assumes "\<And>r. pres sound_memory (on_response r)"
  shows "pres sound_memory (submit e q on_response)"
  unfolding submit_def
proof (rule pres_andthen)
  show "pres sound_memory (send_message e q)"
    by (rule sound_keeps, rule keeps_send_message) simp
  show "pres sound_memory (case x of Returns r \<Rightarrow> on_response r | Raise k why \<Rightarrow> api_handlers k why)" for x
  proof (cases x)
    case (Returns r)
    then show ?thesis by (simp add: assms)
  next
    case (Raise k why)
    have "pres sound_memory (api_handlers k why)"
      by (rule sound_keeps, rule keeps_handlers) simp
    with Raise show ?thesis by simp
  qed
qed

lemma sound_response_text: "pres sound_memory (response_text r)"
  by (rule sound_keeps, rule keeps_response_text)

lemma sound_input: "pres sound_memory (py_input p)"
  by (rule sound_keeps, rule keeps_input) simp_all

lemma sound_print: "pres sound_memory (py_print t)"
  by (rule sound_keeps, rule keeps_print) simp

lemma sound_stop: "pres sound_memory (stop c)"
  by (rule sound_keeps, rule keeps_stop)

lemma sound_describe: "pres sound_memory (describe e d p)"
  by (rule sound_keeps, rule keeps_describe) (simp_all add: keeps_def start_image_chat_def)

lemma sound_option3: "pres sound_memory (option3 e)"
  unfolding option3_def
  by (intro pres_andthen pres_if sound_input sound_print sound_stop sound_describe
      sound_submit sound_response_text sound_remember) simp_all

lemma sound_body: "pres sound_memory (body e)"
  unfolding body_def
proof (intro pres_andthen pres_if sound_option3 sound_input sound_print)
  show "pres sound_memory menu"
    by (rule sound_keeps, rule keeps_menu) simp
  show "pres sound_memory (option1 e)"
    using keeps_option1 [of e] by (simp add: keeps_def pres_def sound_memory_def)
  show "pres sound_memory (option2 e)"
    using keeps_option2 [of e] by (simp add: keeps_def pres_def sound_memory_def)
qed

lemma sound_turn: "sound_memory s \<Longrightarrow> sound_memory (snd (turn e s))"
  using sound_body [of e] by (simp add: pres_def snd_turn)

lemma loop_invariant:
  assumes step: "\<And>s. P s \<Longrightarrow> P (snd (turn e s))"
  shows "P s \<Longrightarrow> P (snd (loop e n s))"
proof (induction n arbitrary: s)
  case 0
  then show ?case by simp
next
  case (Suc n)
  obtain c s1 where t: "turn e s = (c, s1)" by (cases "turn e s")
  with step [OF Suc.prems] have p1: "P s1" by simp
  show ?case
  proof (cases "c = Continue")
    case True
    with t Suc.IH [OF p1] show ?thesis by simp
  next
    case False
    with t p1 show ?thesis by (cases c) simp_all
  qed
qed


lemma keeps_initialize: "(\<And>s c. f (s\<lparr>console := c\<rparr>) = f s) \<Longrightarrow> keeps f (initialize_genai e)"
  unfolding initialize_genai_def subscript_def key_error_def generative_model_def
  by (auto intro!: keeps_andthen keeps_print keeps_exit keeps_stop keeps_ret
      split: config_read.splits option.splits)

lemma sound_startup: "pres sound_memory (startup e)"
  unfolding startup_def
proof (intro pres_andthen sound_print)
  show "pres sound_memory (initialize_genai e)"
    by (rule sound_keeps, rule keeps_initialize) simp
  show "pres sound_memory start_chat"
    by (simp add: pres_def start_chat_def sound_memory_def)
  show "pres sound_memory forget"
    by (simp add: pres_def forget_def sound_memory_def)
qed

lemma script_invariant:
  assumes con: "\<And>s c. P (s\<lparr>console := c\<rparr>) = P s"
    and init: "P (power_on ks)"
    and start: "P (power_on ks) \<Longrightarrow> P (snd (startup e (power_on ks)))"
    and step: "\<And>s. P s \<Longrightarrow> P (snd (turn e s))"
  shows "P (snd (script e n ks))"
proof -
  have m: "P (snd (main e n (power_on ks)))"
  proof (cases "args e = []")
    case False
    with init con show ?thesis by (simp add: main_def py_print_def)
  next
    case True
    obtain r s1 where st: "startup e (power_on ks) = (r, s1)" by (cases "startup e (power_on ks)")
    with start [OF init] have p1: "P s1" by simp
    show ?thesis
    proof (cases r)
      case (Val u)
      with True st loop_invariant [of P e s1 n, OF step p1] show ?thesis
        by (simp add: main_def food_ingredients_chat_def)
    next
      case (Stop c)
      with True st p1 show ?thesis by (simp add: main_def food_ingredients_chat_def)
    qed
  qed
  obtain c s2 where r: "main e n (power_on ks) = (c, s2)" by (cases "main e n (power_on ks)")
  with m have "P s2" by simp
  with r con show ?thesis
    by (simp add: script_def split: control.splits exn.splits)
qed

lemma script_sound: "sound_memory (snd (script e n ks))"
proof (rule script_invariant)
  show "sound_memory (s\<lparr>console := c\<rparr>) = sound_memory s" for s c
    by (simp add: sound_memory_def)
  show "sound_memory (power_on ks)"
    by (simp add: sound_memory_def power_on_def)
  show "sound_memory (snd (startup e (power_on ks)))" if "sound_memory (power_on ks)"
    using that sound_startup [of e] by (simp add: pres_def)
  show "sound_memory (snd (turn e s))" if "sound_memory s" for s
    using that by (rule sound_turn)
qed

lemma reuse2_body:
  assumes "stdin s = Line ''2'' # Line answer # Line ingredient # rest" and "lower answer = ''yes''"
    and "last_food_item s = Some dish" and "dish \<noteq> []" and "\<not> isspace dish"
    and "ingredient \<noteq> []" and "\<not> isspace ingredient"
  shows "body e s =
     submit e (query2 dish ingredient) (\<lambda>response.
         andthen (py_print ''Response: '') (\<lambda>_.
         andthen (response_text response) (\<lambda>text.
         py_print text)))
       (s\<lparr>stdin := rest, console := console s @ menu_events @
          [Prompt (use_last_prompt ''dish'' dish), Prompt ''Enter the ingredient to check: '']\<rparr>)"
  using assms by (simp add: body_dispatch option2_def ask_item_def truthy_def cmd_defs)

lemma reuse2_sent:
  assumes "stdin s = Line ''2'' # Line answer # Line ingredient # rest" and "lower answer = ''yes''"
    and "last_food_item s = Some dish" and "dish \<noteq> []" and "\<not> isspace dish"
    and "ingredient \<noteq> []" and "\<not> isspace ingredient"
  shows "chat (snd (turn e s)) = chat s @ [TextMsg (query2 dish ingredient)]"
  unfolding snd_turn reuse2_body [OF assms]
  by (simp add: submit_chat shown_keeps)

text \<open>
  C10. In the state the script is in after any number of iterations from its start, a
  \<open>last_food_item\<close> that is set is neither empty nor all whitespace. So when the next
  iteration reuses it (option 1, or option 2 with an acceptable ingredient, and a spelling
  of \<open>yes\<close> to the reuse question) the query sent is built from that non-blank name.
\<close>

theorem last_food_item_is_never_blank:
  "(\<forall>f. last_food_item (snd (script e n ks)) = Some f \<longrightarrow> f \<noteq> [] \<and> \<not> isspace f)
   \<and> (\<forall>f answer rest.
         last_food_item (snd (script e n ks)) = Some f \<and> lower answer = ''yes''
         \<and> stdin (snd (script e n ks)) = Line ''1'' # Line answer # rest
         \<longrightarrow> f \<noteq> [] \<and> \<not> isspace f
           \<and> chat (snd (turn e (snd (script e n ks)))) = chat (snd (script e n ks)) @ [TextMsg (query1 f)])
   \<and> (\<forall>f answer ingredient rest.
         last_food_item (snd (script e n ks)) = Some f \<and> lower answer = ''yes''
         \<and> stdin (snd (script e n ks)) = Line ''2'' # Line answer # Line ingredient # rest
         \<and> ingredient \<noteq> [] \<and> \<not> isspace ingredient
         \<longrightarrow> f \<noteq> [] \<and> \<not> isspace f
           \<and> chat (snd (turn e (snd (script e n ks)))) = chat (snd (script e n ks)) @ [TextMsg (query2 f ingredient)])"
proof -
  have ok: "f \<noteq> [] \<and> \<not> isspace f" if "last_food_item (snd (script e n ks)) = Some f" for f
    using script_sound [of e n ks] that by (simp add: sound_memory_def)
  show ?thesis
    using ok reuse1_sent [of "snd (script e n ks)"] reuse2_sent [of "snd (script e n ks)"]
    by blast
qed

theorem last_food_item_is_never_blank_witness:
  "last_food_item (snd (script kitchen 1
       [Line ''3'', Line ''pizza'', Line ''round'', Line [], Line ''1'', Line ''yes''])) = Some ''pizza''
   \<and> ''pizza'' \<noteq> [] \<and> \<not> isspace ''pizza''
   \<and> chat (snd (turn kitchen (snd (script kitchen 1
       [Line ''3'', Line ''pizza'', Line ''round'', Line [], Line ''1'', Line ''yes''])))) =
     chat (snd (script kitchen 1
       [Line ''3'', Line ''pizza'', Line ''round'', Line [], Line ''1'', Line ''yes''])) @ [TextMsg (query1 ''pizza'')]"
proof -
  have a: "last_food_item (snd (script kitchen 1
       [Line ''3'', Line ''pizza'', Line ''round'', Line [], Line ''1'', Line ''yes''])) = Some ''pizza''"
    by code_simp
  have b: "stdin (snd (script kitchen 1
       [Line ''3'', Line ''pizza'', Line ''round'', Line [], Line ''1'', Line ''yes''])) = Line ''1'' # Line ''yes'' # []"
    by code_simp
  have c: "lower ''yes'' = ''yes''"
    by code_simp
  from last_food_item_is_never_blank
    [of kitchen 1 "[Line ''3'', Line ''pizza'', Line ''round'', Line [], Line ''1'', Line ''yes'']"] a b c
  show ?thesis by blast
qed























end
